theory Spec2Isabelle
  imports Main "HOL-Library.Word"
begin

section \<open>Contract validation of the host (package rhp, contracts.go)\<close>

text \<open>
  The validators of \<^verbatim>\<open>rhp/contracts.go\<close> are pure functions over the value types of
  \<^verbatim>\<open>go.sia.tech/core/types\<close>. A Go function here ends in one of three ways: it
  returns its success value, it returns a non-nil \<^verbatim>\<open>error\<close>, or the Go runtime
  panics (a slice index out of range, or \<^verbatim>\<open>Currency.Add\<close>/\<^verbatim>\<open>Currency.Sub\<close>
  leaving the 128-bit range). All three are values of the model.
\<close>

subsection \<open>Value types\<close>

type_synonym uint64 = "64 word"

text \<open>\<^verbatim>\<open>types.Currency\<close> is an unsigned 128-bit integer (two 64-bit limbs).\<close>

type_synonym Currency = "128 word"

type_synonym Hash256 = "256 word"

type_synonym Address = "256 word"

text \<open>\<^verbatim>\<open>types.VoidAddress\<close> is the zero value of \<^verbatim>\<open>types.Address\<close>.\<close>

definition VoidAddress :: Address where
  "VoidAddress = 0"

definition ZeroCurrency :: Currency where
  "ZeroCurrency = 0"

text \<open>\<^verbatim>\<open>types.MaxRevisionNumber\<close> is \<^verbatim>\<open>math.MaxUint64\<close>.\<close>

definition MaxRevisionNumber :: uint64 where
  "MaxRevisionNumber = - 1"

text \<open>
  The fields of \<^verbatim>\<open>rhpv2.HostSettings\<close> that the validators read.
\<close>

record HostSettings =
  Address :: Address
  ContractPrice :: Currency
  MaxCollateral :: Currency
  WindowSize :: uint64
  MaxDuration :: uint64

record SiacoinOutput =
  Address :: Address
  Value :: Currency

record UnlockKey =
  Algorithm :: "128 word"
  Key :: "8 word list"

record UnlockConditions =
  Timelock :: uint64
  PublicKeys :: "UnlockKey list"
  SignaturesRequired :: uint64

record FileContract =
  Filesize :: uint64
  FileMerkleRoot :: Hash256
  WindowStart :: uint64
  WindowEnd :: uint64
  ValidProofOutputs :: "SiacoinOutput list"
  MissedProofOutputs :: "SiacoinOutput list"
  UnlockHash :: Hash256
  RevisionNumber :: uint64

text \<open>
  \<^verbatim>\<open>types.FileContractRevision\<close> embeds \<^verbatim>\<open>FileContract\<close>, so every field and
  method of the contract is one of the revision too: the record extends it.
\<close>

record FileContractRevision = FileContract +
  ParentID :: Hash256
  UnlockConditions :: UnlockConditions

subsection \<open>Results: value, error, or panic\<close>

datatype panic = IndexOutOfRange | Overflow | Underflow

text \<open>
  An \<^verbatim>\<open>error\<close> built by \<^verbatim>\<open>errors.New(msg)\<close> is \<open>Error msg []\<close>; one built by
  \<^verbatim>\<open>fmt.Errorf(msg, args...)\<close> keeps the format string and the numeric arguments.
\<close>

datatype error = Error string "nat list"

datatype 'a result = Ok 'a | Err error | Panic panic

text \<open>Sequencing: the first error or panic ends the function.\<close>

definition rbind :: "'a result \<Rightarrow> ('a \<Rightarrow> 'b result) \<Rightarrow> 'b result" where
  "rbind m f = (case m of Ok x \<Rightarrow> f x | Err e \<Rightarrow> Err e | Panic p \<Rightarrow> Panic p)"

text \<open>Go's \<^verbatim>\<open>xs[i]\<close>: a runtime panic when \<open>i\<close> is not below \<^verbatim>\<open>len(xs)\<close>.\<close>

definition index :: "'a list \<Rightarrow> nat \<Rightarrow> 'a result" where
  "index xs i = (if i < length xs then Ok (xs ! i) else Panic IndexOutOfRange)"

subsection \<open>Currency arithmetic (go.sia.tech/core/types)\<close>

text \<open>
  The methods of \<^verbatim>\<open>types.Currency\<close> belong to the imported library
  \<^verbatim>\<open>go.sia.tech/core\<close>, not to the sources of the host; they are modelled after the
  library. \<^verbatim>\<open>AddWithOverflow\<close> and \<^verbatim>\<open>SubWithUnderflow\<close> return the wrapped 128-bit
  result and the carry (borrow) flag. \<^verbatim>\<open>Add\<close> and \<^verbatim>\<open>Sub\<close> return a single
  \<^verbatim>\<open>Currency\<close> (the validators use their results as values:
  \<^verbatim>\<open>oldPayout = oldPayout.Add(o.Value)\<close>); they call the flagged operations and panic
  when the flag is set. \<^verbatim>\<open>Cmp\<close> returns -1, 0 or 1.
\<close>

definition AddWithOverflow :: "Currency \<Rightarrow> Currency \<Rightarrow> Currency \<times> bool" where
  "AddWithOverflow c v = (c + v, 2 ^ 128 \<le> unat c + unat v)"

definition Add :: "Currency \<Rightarrow> Currency \<Rightarrow> Currency result" where
  "Add c v = (case AddWithOverflow c v of (s, overflow) \<Rightarrow>
     if overflow then Panic Overflow else Ok s)"

definition SubWithUnderflow :: "Currency \<Rightarrow> Currency \<Rightarrow> Currency \<times> bool" where
  "SubWithUnderflow c v = (c - v, unat c < unat v)"

definition Sub :: "Currency \<Rightarrow> Currency \<Rightarrow> Currency result" where
  "Sub c v = (case SubWithUnderflow c v of (s, underflow) \<Rightarrow>
     if underflow then Panic Underflow else Ok s)"

definition Cmp :: "Currency \<Rightarrow> Currency \<Rightarrow> int" where
  "Cmp c v = (if unat c < unat v then - 1 else if c = v then 0 else 1)"

definition Equals :: "Currency \<Rightarrow> Currency \<Rightarrow> bool" where
  "Equals c v = (c = v)"

subsection \<open>Payout accessors of a file contract\<close>

text \<open>
  The accessors are methods of the library's \<^verbatim>\<open>FileContract\<close>, with the index
  conventions of the outputs: renter 0, host 1, void 2. They index the slices and so
  panic on a contract with too few outputs.
\<close>

definition ValidRenterOutput :: "'a FileContract_scheme \<Rightarrow> SiacoinOutput result" where
  "ValidRenterOutput fc = index (ValidProofOutputs fc) 0"

definition ValidRenterPayout :: "'a FileContract_scheme \<Rightarrow> Currency result" where
  "ValidRenterPayout fc = rbind (ValidRenterOutput fc) (\<lambda>out. Ok (Value out))"

definition MissedRenterOutput :: "'a FileContract_scheme \<Rightarrow> SiacoinOutput result" where
  "MissedRenterOutput fc = index (MissedProofOutputs fc) 0"

definition MissedRenterPayout :: "'a FileContract_scheme \<Rightarrow> Currency result" where
  "MissedRenterPayout fc = rbind (MissedRenterOutput fc) (\<lambda>out. Ok (Value out))"

definition ValidHostOutput :: "'a FileContract_scheme \<Rightarrow> SiacoinOutput result" where
  "ValidHostOutput fc = index (ValidProofOutputs fc) 1"

definition ValidHostPayout :: "'a FileContract_scheme \<Rightarrow> Currency result" where
  "ValidHostPayout fc = rbind (ValidHostOutput fc) (\<lambda>out. Ok (Value out))"

definition MissedHostOutput :: "'a FileContract_scheme \<Rightarrow> SiacoinOutput result" where
  "MissedHostOutput fc = index (MissedProofOutputs fc) 1"

definition MissedHostPayout :: "'a FileContract_scheme \<Rightarrow> Currency result" where
  "MissedHostPayout fc = rbind (MissedHostOutput fc) (\<lambda>out. Ok (Value out))"

subsection \<open>contractUnlockConditions\<close>

definition contractUnlockConditions :: "UnlockKey \<Rightarrow> UnlockKey \<Rightarrow> UnlockConditions" where
  "contractUnlockConditions hostKey renterKey =
     \<lparr>Timelock = 0, PublicKeys = [renterKey, hostKey], SignaturesRequired = 2\<rparr>"

subsection \<open>validateStdRevision\<close>

text \<open>
  The first loop: \<^verbatim>\<open>for _, o := range current.ValidProofOutputs\<close>, adding each value to
  the running total with the panicking \<^verbatim>\<open>Add\<close>.
\<close>

fun sumOutputs :: "Currency \<Rightarrow> SiacoinOutput list \<Rightarrow> Currency result" where
  "sumOutputs acc [] = Ok acc"
| "sumOutputs acc (out # outs) = rbind (Add acc (Value out)) (\<lambda>acc'. sumOutputs acc' outs)"

text \<open>
  The second and third loops: \<^verbatim>\<open>for i := range revision.XProofOutputs\<close>. The argument
  \<open>rs\<close> is what is left of the revision's outputs from index \<open>i\<close> on; the current
  revision's slice \<open>cur\<close> is read at the same index \<open>i\<close>, whatever its length.
\<close>

fun sumRevisionOutputs ::
  "string \<Rightarrow> SiacoinOutput list \<Rightarrow> SiacoinOutput list \<Rightarrow> nat \<Rightarrow> Currency \<Rightarrow> Currency result" where
  "sumRevisionOutputs msg cur [] i acc = Ok acc"
| "sumRevisionOutputs msg cur (r # rs) i acc =
     rbind (index cur i) (\<lambda>c.
       if Address r \<noteq> Address c then Err (Error msg [i])
       else rbind (Add acc (Value r)) (\<lambda>acc'. sumRevisionOutputs msg cur rs (Suc i) acc'))"

text \<open>
  \<^verbatim>\<open>UnlockConditions.UnlockHash()\<close> is a hash function of the library; the validators
  only compare its results, so it is the parameter \<open>uh\<close>.
\<close>

definition validateStdRevision ::
  "(UnlockConditions \<Rightarrow> Hash256) \<Rightarrow> FileContractRevision \<Rightarrow> FileContractRevision \<Rightarrow> unit result" where
  "validateStdRevision uh current revision =
     rbind (sumOutputs 0 (ValidProofOutputs current)) (\<lambda>oldPayout.
     rbind (sumRevisionOutputs ''valid proof output %v address should not change''
              (ValidProofOutputs current) (ValidProofOutputs revision) 0 0) (\<lambda>validPayout.
     rbind (sumRevisionOutputs ''missed proof output %v address should not change''
              (MissedProofOutputs current) (MissedProofOutputs revision) 0 0) (\<lambda>missedPayout.
     if \<not> Equals validPayout oldPayout then
       Err (Error ''valid proof output sum must not change'' [])
     else if \<not> Equals missedPayout oldPayout then
       Err (Error ''missed proof output sum must not change'' [])
     else if UnlockHash revision \<noteq> UnlockHash current then
       Err (Error ''unlock hash must not change'' [])
     else if uh (UnlockConditions revision) \<noteq> uh (UnlockConditions current) then
       Err (Error ''unlock conditions must not change'' [])
     else if RevisionNumber revision \<le> RevisionNumber current then
       Err (Error ''revision number must increase'' [])
     else if WindowStart revision \<noteq> WindowStart current then
       Err (Error ''window start must not change'' [])
     else if WindowEnd revision \<noteq> WindowEnd current then
       Err (Error ''window end must not change'' [])
     else if length (ValidProofOutputs revision) \<noteq> length (ValidProofOutputs current) then
       Err (Error ''valid proof outputs must not change'' [])
     else if length (MissedProofOutputs revision) \<noteq> length (MissedProofOutputs current) then
       Err (Error ''missed proof outputs must not change'' [])
     else
     rbind (ValidRenterPayout revision) (\<lambda>rv.
     rbind (ValidRenterPayout current) (\<lambda>cv.
     if Cmp rv cv > 0 then
       Err (Error ''renter valid proof output must not increase'' [])
     else
     rbind (MissedRenterPayout revision) (\<lambda>rm.
     rbind (MissedRenterPayout current) (\<lambda>cm.
     if Cmp rm cm > 0 then
       Err (Error ''renter missed proof output must not increase'' [])
     else
     rbind (ValidRenterPayout revision) (\<lambda>rv'.
     rbind (MissedRenterPayout revision) (\<lambda>rm'.
     if \<not> Equals rv' rm' then
       Err (Error ''renter payouts must be equal'' [])
     else Ok ())))))))))"

subsection \<open>Revise\<close>

text \<open>
  The two loops of \<^verbatim>\<open>Revise\<close> fill fresh slices index by index; the guard before
  them has made the lengths equal, so every index read is in range.
\<close>

definition reviseOutputs :: "SiacoinOutput list \<Rightarrow> Currency list \<Rightarrow> SiacoinOutput list" where
  "reviseOutputs old vals =
     map (\<lambda>i. \<lparr>Address = Address (old ! i), Value = vals ! i\<rparr>) [0..<length vals]"

definition Revise ::
  "FileContractRevision \<Rightarrow> uint64 \<Rightarrow> Currency list \<Rightarrow> Currency list \<Rightarrow> FileContractRevision result" where
  "Revise revision revisionNumber validOutputs missedOutputs =
     (if length validOutputs \<noteq> length (ValidProofOutputs revision)
         \<or> length missedOutputs \<noteq> length (MissedProofOutputs revision) then
        Err (Error ''incorrect number of outputs'' [])
      else if revisionNumber \<le> RevisionNumber revision then
        Err (Error ''revision number must be greater than %v'' [unat (RevisionNumber revision)])
      else
        Ok (revision\<lparr>RevisionNumber := revisionNumber,
              ValidProofOutputs := reviseOutputs (ValidProofOutputs revision) validOutputs,
              MissedProofOutputs := reviseOutputs (MissedProofOutputs revision) missedOutputs\<rparr>))"

subsection \<open>ValidateContractFormation\<close>

definition ValidateContractFormation ::
  "(UnlockConditions \<Rightarrow> Hash256) \<Rightarrow> FileContract \<Rightarrow> UnlockKey \<Rightarrow> UnlockKey \<Rightarrow> uint64 \<Rightarrow>
   HostSettings \<Rightarrow> Currency result" where
  "ValidateContractFormation uh fc hostKey renterKey currentHeight settings =
     (if Filesize fc \<noteq> 0 then
        Err (Error ''initial filesize should be 0'' [])
      else if RevisionNumber fc \<noteq> 0 then
        Err (Error ''initial revision number should be 0'' [])
      else if FileMerkleRoot fc \<noteq> 0 then
        Err (Error ''initial Merkle root should be empty'' [])
      else if WindowStart fc < currentHeight + WindowSize settings then
        Err (Error ''contract ends too soon to safely submit the contract transaction'' [])
      else if WindowStart fc > currentHeight + MaxDuration settings then
        Err (Error ''contract duration is too long'' [])
      else if WindowEnd fc < WindowStart fc + WindowSize settings then
        Err (Error ''proof window is too small'' [])
      else if length (ValidProofOutputs fc) \<noteq> 2 then
        Err (Error ''wrong number of valid proof outputs'' [])
      else if length (MissedProofOutputs fc) \<noteq> 3 then
        Err (Error ''wrong number of missed proof outputs'' [])
      else
      rbind (ValidHostOutput fc) (\<lambda>vho.
      if Address vho \<noteq> HostSettings.Address settings then
        Err (Error ''wrong address for host valid output'' [])
      else
      rbind (MissedHostOutput fc) (\<lambda>mho.
      if Address mho \<noteq> HostSettings.Address settings then
        Err (Error ''wrong address for host missed output'' [])
      else
      rbind (index (MissedProofOutputs fc) 2) (\<lambda>void.
      if Address void \<noteq> VoidAddress then
        Err (Error ''wrong address for void output'' [])
      else if Value void \<noteq> ZeroCurrency then
        Err (Error ''void output should have value 0'' [])
      else
      rbind (ValidHostPayout fc) (\<lambda>vhp.
      if Cmp vhp (ContractPrice settings) < 0 then
        Err (Error ''host valid payout is too small'' [])
      else
      rbind (MissedHostPayout fc) (\<lambda>mhp.
      if \<not> Equals vhp mhp then
        Err (Error ''host valid and missed outputs must be equal'' [])
      else if Cmp vhp (MaxCollateral settings) > 0 then
        Err (Error ''excessive initial collateral'' [])
      else if UnlockHash fc \<noteq> uh (contractUnlockConditions hostKey renterKey) then
        Err (Error ''incorrect unlock hash'' [])
      else Sub vhp (ContractPrice settings)))))))"

subsection \<open>ValidateContractRenewal\<close>

text \<open>
  The three results are \<^verbatim>\<open>(storageRevenue, riskedCollateral, lockedCollateral)\<close>. The
  message of the excessive-burn error formats the named result
  \<^verbatim>\<open>riskedCollateral\<close>, which still holds its zero value there.
\<close>

definition ValidateContractRenewal ::
  "FileContractRevision \<Rightarrow> FileContract \<Rightarrow> UnlockKey \<Rightarrow> UnlockKey \<Rightarrow> Currency \<Rightarrow> Currency \<Rightarrow>
   uint64 \<Rightarrow> HostSettings \<Rightarrow> (Currency \<times> Currency \<times> Currency) result" where
  "ValidateContractRenewal existing renewal hostKey renterKey baseHostRevenue baseRiskedCollateral
     currentHeight settings =
     (if RevisionNumber renewal \<noteq> 0 then
        Err (Error ''revision number must be zero'' [])
      else if Filesize renewal \<noteq> Filesize existing then
        Err (Error ''filesize must not change'' [])
      else if FileMerkleRoot renewal \<noteq> FileMerkleRoot existing then
        Err (Error ''file Merkle root must not change'' [])
      else if WindowEnd renewal < WindowEnd existing then
        Err (Error ''renewal window must not end before current window'' [])
      else if WindowStart renewal < currentHeight + WindowSize settings then
        Err (Error ''contract ends too soon to safely submit the contract transaction'' [])
      else if WindowStart renewal > currentHeight + MaxDuration settings then
        Err (Error ''contract duration is too long'' [])
      else if WindowEnd renewal < WindowStart renewal + WindowSize settings then
        Err (Error ''proof window is too small'' [])
      else if length (ValidProofOutputs renewal) \<noteq> 2 then
        Err (Error ''wrong number of valid proof outputs'' [])
      else if length (MissedProofOutputs renewal) \<noteq> 3 then
        Err (Error ''wrong number of missed proof outputs'' [])
      else
      rbind (index (ValidProofOutputs renewal) 1) (\<lambda>host.
      if Address host \<noteq> HostSettings.Address settings then
        Err (Error ''wrong address for host output'' [])
      else
      rbind (index (MissedProofOutputs renewal) 2) (\<lambda>void.
      if Address void \<noteq> VoidAddress then
        Err (Error ''wrong address for void output'' [])
      else
      rbind (Add baseHostRevenue baseRiskedCollateral) (\<lambda>expectedBurn.
      rbind (ValidHostPayout renewal) (\<lambda>vhp.
      rbind (MissedHostPayout renewal) (\<lambda>mhp.
      case SubWithUnderflow vhp mhp of (hostBurn, underflow) \<Rightarrow>
      if underflow then
        Err (Error ''host valid payout must be greater than host missed payout'' [])
      else if Cmp hostBurn expectedBurn > 0 then
        Err (Error ''excessive host burn: expected at most %d got %d''
               [unat baseRiskedCollateral, unat ZeroCurrency])
      else
      rbind (index (MissedProofOutputs renewal) 2) (\<lambda>void'.
      if \<not> Equals (Value void') hostBurn then
        Err (Error ''risked collateral must be sent to void output'' [])
      else
      case SubWithUnderflow hostBurn baseHostRevenue of (risked, underflow') \<Rightarrow>
      let riskedCollateral = (if underflow' then ZeroCurrency else risked) in
      rbind (ValidHostPayout renewal) (\<lambda>vhp'.
      case SubWithUnderflow vhp' baseHostRevenue of (lockedCollateral, underflow'') \<Rightarrow>
      if underflow'' then
        Err (Error ''valid host output must be more than base storage cost'' [])
      else if Cmp lockedCollateral (MaxCollateral settings) > 0 then
        Err (Error ''collateral exceeds maximum: expected at most %d got %d''
               [unat (MaxCollateral settings), unat lockedCollateral])
      else Ok (baseHostRevenue, riskedCollateral, lockedCollateral)))))))))"

subsection \<open>ValidateClearingRevision\<close>

text \<open>
  The loop \<^verbatim>\<open>for i := range final.ValidProofOutputs\<close>: \<open>rest\<close> is what is left of
  the final revision's valid outputs from index \<open>i\<close> on; the current revision's valid
  outputs and the final revision's missed outputs are read at index \<open>i\<close>.
\<close>

fun clearingOutputs ::
  "SiacoinOutput list \<Rightarrow> SiacoinOutput list \<Rightarrow> SiacoinOutput list \<Rightarrow> nat \<Rightarrow> unit result" where
  "clearingOutputs cur fmissed [] i = Ok ()"
| "clearingOutputs cur fmissed (valid # rest) i =
     rbind (index cur i) (\<lambda>current.
     rbind (index fmissed i) (\<lambda>missed.
       if \<not> Equals (Value valid) (Value current) then
         Err (Error ''valid proof output value %v must not change'' [i])
       else if Address valid \<noteq> Address current then
         Err (Error ''valid proof output address %v must not change'' [i])
       else if \<not> Equals (Value valid) (Value missed) then
         Err (Error ''missed proof output %v must equal valid proof output'' [i])
       else if Address valid \<noteq> Address missed then
         Err (Error ''missed proof output address %v must equal valid proof output'' [i])
       else clearingOutputs cur fmissed rest (Suc i)))"

definition ValidateClearingRevision ::
  "(UnlockConditions \<Rightarrow> Hash256) \<Rightarrow> FileContractRevision \<Rightarrow> FileContractRevision \<Rightarrow> unit result" where
  "ValidateClearingRevision uh current final =
     (if Filesize final \<noteq> 0 then
        Err (Error ''filesize must be 0'' [])
      else if FileMerkleRoot final \<noteq> 0 then
        Err (Error ''file merkle root must be empty'' [])
      else if WindowStart current \<noteq> WindowStart final then
        Err (Error ''window start must not change'' [])
      else if WindowEnd current \<noteq> WindowEnd final then
        Err (Error ''window end must not change'' [])
      else if length (ValidProofOutputs final) \<noteq> length (MissedProofOutputs final) then
        Err (Error ''wrong number of proof outputs'' [])
      else if RevisionNumber final \<noteq> MaxRevisionNumber then
        Err (Error ''revision number must be max value'' [])
      else if UnlockHash final \<noteq> UnlockHash current then
        Err (Error ''unlock hash must not change'' [])
      else if uh (UnlockConditions final) \<noteq> uh (UnlockConditions current) then
        Err (Error ''unlock conditions must not change'' [])
      else
        clearingOutputs (ValidProofOutputs current) (MissedProofOutputs final)
          (ValidProofOutputs final) 0)"

subsection \<open>ValidateRevision\<close>

definition ValidateRevision ::
  "(UnlockConditions \<Rightarrow> Hash256) \<Rightarrow> FileContractRevision \<Rightarrow> FileContractRevision \<Rightarrow>
   Currency \<Rightarrow> Currency \<Rightarrow> (Currency \<times> Currency) result" where
  "ValidateRevision uh current revision payment collateral =
     rbind (validateStdRevision uh current revision) (\<lambda>_.
     rbind (ValidRenterPayout current) (\<lambda>cvr.
     if Cmp cvr payment < 0 then
       Err (Error ''renter valid proof output must be greater than the payment amount'' [])
     else
     rbind (MissedRenterPayout current) (\<lambda>cmr.
     if Cmp cmr payment < 0 then
       Err (Error ''renter missed proof output must be greater than the payment amount'' [])
     else
     rbind (MissedHostPayout current) (\<lambda>cmh.
     if Cmp cmh collateral < 0 then
       Err (Error ''host missed proof output must be greater than the collateral amount'' [])
     else
     rbind (ValidRenterPayout revision) (\<lambda>rvr.
     case SubWithUnderflow cvr rvr of (fromRenter, underflow) \<Rightarrow>
     if underflow then
       Err (Error ''renter valid payout must decrease'' [])
     else
     rbind (ValidHostPayout revision) (\<lambda>rvh.
     rbind (ValidHostPayout current) (\<lambda>cvh.
     case SubWithUnderflow rvh cvh of (toHost, overflow) \<Rightarrow>
     if overflow then
       Err (Error ''host valid payout must increase'' [])
     else
     rbind (MissedHostPayout revision) (\<lambda>rmh.
     case SubWithUnderflow cmh rmh of (hostBurn, underflow') \<Rightarrow>
     if underflow' then
       Err (Error ''host missed payout must decrease'' [])
     else if \<not> Equals fromRenter toHost then
       Err (Error ''expected %d to be transferred to host, got %d'' [unat fromRenter, unat toHost])
     else if Cmp toHost payment < 0 then
       Err (Error ''insufficient host transfer: expected at least %d, got %d''
              [unat payment, unat toHost])
     else if Cmp hostBurn collateral > 0 then
       Err (Error ''excessive collateral transfer: expected at most %d, got %d''
              [unat collateral, unat hostBurn])
     else Ok (toHost, hostBurn)))))))))"

subsection \<open>ValidateProgramRevision\<close>

definition ValidateProgramRevision ::
  "(UnlockConditions \<Rightarrow> Hash256) \<Rightarrow> FileContractRevision \<Rightarrow> FileContractRevision \<Rightarrow>
   Currency \<Rightarrow> Currency \<Rightarrow> Currency result" where
  "ValidateProgramRevision uh current revision storage collateral =
     rbind (validateStdRevision uh current revision) (\<lambda>_.
     rbind (MissedHostPayout current) (\<lambda>cmh.
     rbind (MissedHostPayout revision) (\<lambda>rmh.
     case SubWithUnderflow cmh rmh of (hostBurn, underflow) \<Rightarrow>
     if underflow then
       Err (Error ''host missed payout must decrease'' [])
     else
     rbind (Add storage collateral) (\<lambda>expectedBurn.
     if Cmp hostBurn expectedBurn > 0 then
       Err (Error ''host expected to burn at most %d, but burned %d''
              [unat expectedBurn, unat hostBurn])
     else
     rbind (index (MissedProofOutputs revision) 2) (\<lambda>rvoid.
     rbind (index (MissedProofOutputs current) 2) (\<lambda>cvoid.
     case SubWithUnderflow (Value rvoid) (Value cvoid) of (voidBurn, underflow') \<Rightarrow>
     if underflow' then
       Err (Error ''void output value must increase'' [])
     else if \<not> Equals voidBurn hostBurn then
       Err (Error ''host burn value %d should match void burn value %d''
              [unat hostBurn, unat voidBurn])
     else
     rbind (ValidRenterPayout current) (\<lambda>cvr.
     rbind (ValidRenterPayout revision) (\<lambda>rvr.
     if \<not> Equals cvr rvr then
       Err (Error ''renter valid proof output must not change'' [])
     else
     rbind (ValidHostPayout current) (\<lambda>cvh.
     rbind (ValidHostPayout revision) (\<lambda>rvh.
     if \<not> Equals cvh rvh then
       Err (Error ''host valid proof output must not change'' [])
     else
     rbind (MissedRenterPayout current) (\<lambda>cmr.
     rbind (MissedRenterPayout revision) (\<lambda>rmr.
     if \<not> Equals cmr rmr then
       Err (Error ''renter missed proof output must not change'' [])
     else Ok hostBurn))))))))))))"

subsection \<open>ValidatePaymentRevision\<close>

definition ValidatePaymentRevision ::
  "(UnlockConditions \<Rightarrow> Hash256) \<Rightarrow> FileContractRevision \<Rightarrow> FileContractRevision \<Rightarrow>
   Currency \<Rightarrow> unit result" where
  "ValidatePaymentRevision uh current revision payment =
     rbind (validateStdRevision uh current revision) (\<lambda>_.
     rbind (ValidRenterPayout revision) (\<lambda>rvr.
     rbind (ValidRenterPayout current) (\<lambda>cvr.
     rbind (Sub cvr payment) (\<lambda>expValidRenter.
     if Cmp rvr expValidRenter \<noteq> 0 then
       Err (Error ''renter valid proof output is not reduced by the payment amount'' [])
     else
     rbind (MissedRenterPayout revision) (\<lambda>rmr.
     rbind (MissedRenterPayout current) (\<lambda>cmr.
     rbind (Sub cmr payment) (\<lambda>expMissedRenter.
     if Cmp rmr expMissedRenter \<noteq> 0 then
       Err (Error ''renter missed proof output is not reduced by the payment amount'' [])
     else
     rbind (index (ValidProofOutputs revision) 1) (\<lambda>rvh.
     rbind (index (ValidProofOutputs current) 1) (\<lambda>cvh.
     rbind (Add (Value cvh) payment) (\<lambda>expValidHost.
     if Cmp (Value rvh) expValidHost \<noteq> 0 then
       Err (Error ''host valid proof output is not increased by the payment amount'' [])
     else
     rbind (index (MissedProofOutputs revision) 1) (\<lambda>rmh.
     rbind (index (MissedProofOutputs current) 1) (\<lambda>cmh.
     rbind (Add (Value cmh) payment) (\<lambda>expMissedHost.
     if Cmp (Value rmh) expMissedHost \<noteq> 0 then
       Err (Error ''host missed proof output is not increased by the payment amount'' [])
     else Ok ())))))))))))))"

section \<open>Specification-level notions\<close>

text \<open>The exact (unbounded) sum of the values of an output vector.\<close>

definition payoutSum :: "SiacoinOutput list \<Rightarrow> nat" where
  "payoutSum outs = sum_list (map (\<lambda>out. unat (Value out)) outs)"

text \<open>
  The structural invariants of the specification (section 3) between the current
  revision \<open>C\<close> and its successor \<open>R\<close>, without the fixed arities 2 and 3 of invariant
  (1): the output vectors keep their lengths and addresses and are not
  empty, the valid and the missed values of \<open>R\<close> both sum to the valid total of \<open>C\<close>
  (exactly, below \<open>2 ^ 128\<close>), unlock hash, unlock conditions and proof window are
  unchanged, the revision number grows, and the renter's payouts do not grow and are
  equal to each other in \<open>R\<close>.
\<close>

definition specInvariants ::
  "(UnlockConditions \<Rightarrow> Hash256) \<Rightarrow> FileContractRevision \<Rightarrow> FileContractRevision \<Rightarrow> bool" where
  "specInvariants uh C R \<longleftrightarrow>
     length (ValidProofOutputs R) = length (ValidProofOutputs C) \<and>
     length (MissedProofOutputs R) = length (MissedProofOutputs C) \<and>
     0 < length (ValidProofOutputs R) \<and>
     0 < length (MissedProofOutputs R) \<and>
     (\<forall>i<length (ValidProofOutputs R).
        Address (ValidProofOutputs R ! i) = Address (ValidProofOutputs C ! i)) \<and>
     (\<forall>i<length (MissedProofOutputs R).
        Address (MissedProofOutputs R ! i) = Address (MissedProofOutputs C ! i)) \<and>
     payoutSum (ValidProofOutputs C) < 2 ^ 128 \<and>
     payoutSum (ValidProofOutputs R) = payoutSum (ValidProofOutputs C) \<and>
     payoutSum (MissedProofOutputs R) = payoutSum (ValidProofOutputs C) \<and>
     UnlockHash R = UnlockHash C \<and>
     uh (UnlockConditions R) = uh (UnlockConditions C) \<and>
     WindowStart R = WindowStart C \<and>
     WindowEnd R = WindowEnd C \<and>
     RevisionNumber C < RevisionNumber R \<and>
     Value (ValidProofOutputs R ! 0) \<le> Value (ValidProofOutputs C ! 0) \<and>
     Value (MissedProofOutputs R ! 0) \<le> Value (MissedProofOutputs C ! 0) \<and>
     Value (ValidProofOutputs R ! 0) = Value (MissedProofOutputs R ! 0)"

text \<open>
  The formation checks of the specification (section 4.2), read over the integers: the
  sums of heights are exact, not taken modulo \<open>2 ^ 64\<close>.
\<close>

definition specFormationChecks ::
  "(UnlockConditions \<Rightarrow> Hash256) \<Rightarrow> FileContract \<Rightarrow> UnlockKey \<Rightarrow> UnlockKey \<Rightarrow> uint64 \<Rightarrow>
   HostSettings \<Rightarrow> bool" where
  "specFormationChecks uh fc hostKey renterKey h S \<longleftrightarrow>
     Filesize fc = 0 \<and> RevisionNumber fc = 0 \<and> FileMerkleRoot fc = 0 \<and>
     unat h + unat (WindowSize S) \<le> unat (WindowStart fc) \<and>
     unat (WindowStart fc) \<le> unat h + unat (MaxDuration S) \<and>
     unat (WindowStart fc) + unat (WindowSize S) \<le> unat (WindowEnd fc) \<and>
     length (ValidProofOutputs fc) = 2 \<and> length (MissedProofOutputs fc) = 3 \<and>
     Address (ValidProofOutputs fc ! 1) = HostSettings.Address S \<and>
     Address (MissedProofOutputs fc ! 1) = HostSettings.Address S \<and>
     Address (MissedProofOutputs fc ! 2) = VoidAddress \<and>
     Value (MissedProofOutputs fc ! 2) = 0 \<and>
     unat (ContractPrice S) \<le> unat (Value (ValidProofOutputs fc ! 1)) \<and>
     Value (ValidProofOutputs fc ! 1) = Value (MissedProofOutputs fc ! 1) \<and>
     unat (Value (ValidProofOutputs fc ! 1)) \<le> unat (MaxCollateral S) \<and>
     UnlockHash fc = uh (contractUnlockConditions hostKey renterKey)"

section \<open>Concrete inputs\<close>

text \<open>
  A sample instance of the unlock-hash parameter, and the keys, settings and revisions
  of the scenarios: renter address 1, host address 2, void address 0.
\<close>

definition exampleUnlockHash :: "UnlockConditions \<Rightarrow> Hash256" where
  "exampleUnlockHash uc = of_nat (length (PublicKeys uc)) + ucast (SignaturesRequired uc)"

definition exampleHostKey :: UnlockKey where
  "exampleHostKey = \<lparr>Algorithm = 0, Key = [2]\<rparr>"

definition exampleRenterKey :: UnlockKey where
  "exampleRenterKey = \<lparr>Algorithm = 0, Key = [1]\<rparr>"

definition scenarioSettings :: HostSettings where
  "scenarioSettings = \<lparr>HostSettings.Address = 2, ContractPrice = 10, MaxCollateral = 100,
     WindowSize = 10, MaxDuration = 200\<rparr>"

definition scenarioCurrent :: FileContractRevision where
  "scenarioCurrent = \<lparr>Filesize = 0, FileMerkleRoot = 0, WindowStart = 100, WindowEnd = 200,
     ValidProofOutputs = [\<lparr>Address = 1, Value = 100\<rparr>, \<lparr>Address = 2, Value = 50\<rparr>],
     MissedProofOutputs = [\<lparr>Address = 1, Value = 100\<rparr>, \<lparr>Address = 2, Value = 50\<rparr>,
       \<lparr>Address = 0, Value = 0\<rparr>],
     UnlockHash = 4, RevisionNumber = 1, ParentID = 0,
     UnlockConditions = contractUnlockConditions exampleHostKey exampleRenterKey\<rparr>"

text \<open>A successor of \<open>scenarioCurrent\<close> with one valid output more than it.\<close>

definition longerRevision :: FileContractRevision where
  "longerRevision = scenarioCurrent\<lparr>RevisionNumber := 2,
     ValidProofOutputs := [\<lparr>Address = 1, Value = 90\<rparr>, \<lparr>Address = 2, Value = 60\<rparr>,
       \<lparr>Address = 0, Value = 0\<rparr>]\<rparr>"

text \<open>
  A clearing revision whose valid outputs copy the three missed outputs of
  \<open>scenarioCurrent\<close>.
\<close>

definition longerFinal :: FileContractRevision where
  "longerFinal = scenarioCurrent\<lparr>RevisionNumber := MaxRevisionNumber,
     ValidProofOutputs := MissedProofOutputs scenarioCurrent\<rparr>"

text \<open>
  A renewal of \<open>scenarioCurrent\<close> whose missed host output pays to address 9, not to
  the host's address 2.
\<close>

definition strayRenewal :: FileContract where
  "strayRenewal = \<lparr>Filesize = 0, FileMerkleRoot = 0, WindowStart = 100, WindowEnd = 200,
     ValidProofOutputs = [\<lparr>Address = 1, Value = 60\<rparr>, \<lparr>Address = 2, Value = 50\<rparr>],
     MissedProofOutputs = [\<lparr>Address = 1, Value = 60\<rparr>, \<lparr>Address = 9, Value = 45\<rparr>,
       \<lparr>Address = 0, Value = 5\<rparr>],
     UnlockHash = 4, RevisionNumber = 0\<rparr>"

text \<open>
  The revisions of the scenarios: a payment of 10 (\<open>scenarioPayment\<close>), a program
  revision burning 5 (\<open>scenarioProgram\<close>), a general revision paying 10 and burning 5
  (\<open>scenarioRevision\<close>) and the clearing revision (\<open>scenarioFinal\<close>); then revisions
  off the standard shape of two valid and three missed outputs.
\<close>

definition scenarioPayment :: FileContractRevision where
  "scenarioPayment = scenarioCurrent\<lparr>RevisionNumber := 2,
     ValidProofOutputs := [\<lparr>Address = 1, Value = 90\<rparr>, \<lparr>Address = 2, Value = 60\<rparr>],
     MissedProofOutputs := [\<lparr>Address = 1, Value = 90\<rparr>, \<lparr>Address = 2, Value = 60\<rparr>,
       \<lparr>Address = 0, Value = 0\<rparr>]\<rparr>"

definition scenarioProgram :: FileContractRevision where
  "scenarioProgram = scenarioCurrent\<lparr>RevisionNumber := 2,
     MissedProofOutputs := [\<lparr>Address = 1, Value = 100\<rparr>, \<lparr>Address = 2, Value = 45\<rparr>,
       \<lparr>Address = 0, Value = 5\<rparr>]\<rparr>"

definition scenarioRevision :: FileContractRevision where
  "scenarioRevision = scenarioCurrent\<lparr>RevisionNumber := 2,
     ValidProofOutputs := [\<lparr>Address = 1, Value = 90\<rparr>, \<lparr>Address = 2, Value = 60\<rparr>],
     MissedProofOutputs := [\<lparr>Address = 1, Value = 90\<rparr>, \<lparr>Address = 2, Value = 45\<rparr>,
       \<lparr>Address = 0, Value = 15\<rparr>]\<rparr>"

definition scenarioFinal :: FileContractRevision where
  "scenarioFinal = scenarioCurrent\<lparr>RevisionNumber := MaxRevisionNumber,
     MissedProofOutputs := ValidProofOutputs scenarioCurrent\<rparr>"

definition wideCurrent :: FileContractRevision where
  "wideCurrent = scenarioCurrent\<lparr>
     ValidProofOutputs := [\<lparr>Address = 1, Value = 100\<rparr>, \<lparr>Address = 2, Value = 50\<rparr>,
       \<lparr>Address = 3, Value = 0\<rparr>],
     MissedProofOutputs := [\<lparr>Address = 1, Value = 100\<rparr>, \<lparr>Address = 2, Value = 50\<rparr>]\<rparr>"

definition wideRevision :: FileContractRevision where
  "wideRevision = scenarioCurrent\<lparr>RevisionNumber := 2,
     ValidProofOutputs := [\<lparr>Address = 1, Value = 90\<rparr>, \<lparr>Address = 2, Value = 60\<rparr>,
       \<lparr>Address = 3, Value = 0\<rparr>],
     MissedProofOutputs := [\<lparr>Address = 1, Value = 90\<rparr>, \<lparr>Address = 2, Value = 60\<rparr>]\<rparr>"

definition lockedCurrent :: FileContractRevision where
  "lockedCurrent = scenarioCurrent\<lparr>RevisionNumber := MaxRevisionNumber\<rparr>"

definition shortFinal :: FileContractRevision where
  "shortFinal = lockedCurrent\<lparr>
     ValidProofOutputs := [\<lparr>Address = 1, Value = 100\<rparr>],
     MissedProofOutputs := [\<lparr>Address = 1, Value = 100\<rparr>]\<rparr>"

definition burntCurrent :: FileContractRevision where
  "burntCurrent = scenarioCurrent\<lparr>
     MissedProofOutputs := [\<lparr>Address = 1, Value = 100\<rparr>, \<lparr>Address = 2, Value = 50\<rparr>,
       \<lparr>Address = 0, Value = 7\<rparr>]\<rparr>"

definition fourCurrent :: FileContractRevision where
  "fourCurrent = scenarioCurrent\<lparr>
     ValidProofOutputs := [\<lparr>Address = 1, Value = 100\<rparr>, \<lparr>Address = 2, Value = 55\<rparr>],
     MissedProofOutputs := [\<lparr>Address = 1, Value = 100\<rparr>, \<lparr>Address = 2, Value = 50\<rparr>,
       \<lparr>Address = 0, Value = 5\<rparr>, \<lparr>Address = 7, Value = 0\<rparr>]\<rparr>"

definition fourRevision :: FileContractRevision where
  "fourRevision = scenarioCurrent\<lparr>RevisionNumber := 2,
     ValidProofOutputs := [\<lparr>Address = 1, Value = 90\<rparr>, \<lparr>Address = 2, Value = 65\<rparr>],
     MissedProofOutputs := [\<lparr>Address = 1, Value = 90\<rparr>, \<lparr>Address = 2, Value = 60\<rparr>,
       \<lparr>Address = 0, Value = 0\<rparr>, \<lparr>Address = 7, Value = 5\<rparr>]\<rparr>"

text \<open>
  The contract of the formation scenario, and host settings whose maximal duration is
  the largest 64-bit value.
\<close>

definition scenarioFormation :: FileContract where
  "scenarioFormation = \<lparr>Filesize = 0, FileMerkleRoot = 0, WindowStart = 100, WindowEnd = 200,
     ValidProofOutputs = [\<lparr>Address = 1, Value = 60\<rparr>, \<lparr>Address = 2, Value = 50\<rparr>],
     MissedProofOutputs = [\<lparr>Address = 1, Value = 60\<rparr>, \<lparr>Address = 2, Value = 50\<rparr>,
       \<lparr>Address = 0, Value = 0\<rparr>],
     UnlockHash = exampleUnlockHash (contractUnlockConditions exampleHostKey exampleRenterKey),
     RevisionNumber = 0\<rparr>"

definition unboundedSettings :: HostSettings where
  "unboundedSettings = scenarioSettings\<lparr>MaxDuration := 18446744073709551615\<rparr>"

text \<open>
  Revisions for the sums: renter payouts that differ between the valid and the missed
  outputs, and output values that sum past \<open>2 ^ 128 - 1\<close>.
\<close>

definition unequalCurrent :: FileContractRevision where
  "unequalCurrent = scenarioCurrent\<lparr>
     MissedProofOutputs := [\<lparr>Address = 1, Value = 90\<rparr>, \<lparr>Address = 2, Value = 50\<rparr>,
       \<lparr>Address = 0, Value = 10\<rparr>]\<rparr>"

definition overflowCurrent :: FileContractRevision where
  "overflowCurrent = scenarioCurrent\<lparr>
     ValidProofOutputs := [\<lparr>Address = 1, Value = 340282366920938463463374607431768211455\<rparr>,
       \<lparr>Address = 2, Value = 1\<rparr>]\<rparr>"

definition overflowValid :: FileContractRevision where
  "overflowValid = scenarioPayment\<lparr>
     ValidProofOutputs := [\<lparr>Address = 1, Value = 340282366920938463463374607431768211455\<rparr>,
       \<lparr>Address = 2, Value = 1\<rparr>]\<rparr>"

definition overflowMissed :: FileContractRevision where
  "overflowMissed = scenarioPayment\<lparr>
     MissedProofOutputs := [\<lparr>Address = 1, Value = 340282366920938463463374607431768211455\<rparr>,
       \<lparr>Address = 2, Value = 1\<rparr>, \<lparr>Address = 0, Value = 0\<rparr>]\<rparr>"

section \<open>Auxiliary lemmas\<close>

lemmas eval_defs =
  rbind_def index_def Add_def AddWithOverflow_def Sub_def SubWithUnderflow_def Cmp_def Equals_def
  ValidRenterPayout_def ValidRenterOutput_def MissedRenterPayout_def MissedRenterOutput_def
  ValidHostPayout_def ValidHostOutput_def MissedHostPayout_def MissedHostOutput_def
  ZeroCurrency_def VoidAddress_def MaxRevisionNumber_def contractUnlockConditions_def
  word_le_nat_alt word_less_nat_alt

lemma rbind_eq_Ok: "rbind m f = Ok y \<longleftrightarrow> (\<exists>x. m = Ok x \<and> f x = Ok y)"
  by (cases m) (simp_all add: rbind_def)

lemma rbind_Ok: "rbind (Ok x) f = f x"
  by (simp add: rbind_def)

lemma rbind_Panic: "rbind (Panic p) f = Panic p"
  by (simp add: rbind_def)

lemma rbind_Err: "rbind (Err e) f = Err e"
  by (simp add: rbind_def)

lemma index_eq_Ok: "index xs i = Ok v \<longleftrightarrow> i < length xs \<and> v = xs ! i"
  by (auto simp: index_def)

lemma index_in_range: "i < length xs \<Longrightarrow> index xs i = Ok (xs ! i)"
  by (simp add: index_def)

lemma unat_Currency_add: "unat c + unat v < 2 ^ 128 \<Longrightarrow> unat (c + v :: Currency) = unat c + unat v"
  by (simp add: unat_add_lem [THEN iffD1])

lemma Add_eq_Ok: "Add c v = Ok s \<longleftrightarrow> unat c + unat v < 2 ^ 128 \<and> s = c + v"
  by (auto simp: Add_def AddWithOverflow_def)

lemma Add_overflow: "2 ^ 128 \<le> unat c + unat v \<Longrightarrow> Add c v = Panic Overflow"
  by (simp add: Add_def AddWithOverflow_def)

lemma Add_in_range: "unat c + unat v < 2 ^ 128 \<Longrightarrow> Add c v = Ok (c + v)"
  by (simp add: Add_def AddWithOverflow_def)

lemma sumOutputs_in_range:
  "unat acc + payoutSum outs < 2 ^ 128 \<Longrightarrow>
   \<exists>s. sumOutputs acc outs = Ok s \<and> unat s = unat acc + payoutSum outs"
proof (induction outs arbitrary: acc)
  case Nil
  then show ?case by (simp add: payoutSum_def)
next
  case (Cons out outs)
  have split: "payoutSum (out # outs) = unat (Value out) + payoutSum outs"
    by (simp add: payoutSum_def)
  from Cons.prems have small: "unat acc + unat (Value out) < 2 ^ 128"
    by (simp add: split)
  then have u: "unat (acc + Value out) = unat acc + unat (Value out)"
    by (rule unat_Currency_add)
  with Cons.prems have "unat (acc + Value out) + payoutSum outs < 2 ^ 128"
    by (simp add: split)
  from Cons.IH [OF this] obtain s where "sumOutputs (acc + Value out) outs = Ok s"
    and "unat s = unat (acc + Value out) + payoutSum outs" by blast
  with u small show ?case
    by (simp add: Add_in_range rbind_Ok split)
qed

lemma sumOutputs_overflow:
  "2 ^ 128 \<le> unat acc + payoutSum outs \<Longrightarrow> sumOutputs acc outs = Panic Overflow"
proof (induction outs arbitrary: acc)
  case Nil
  have "unat acc < 2 ^ 128" using unsigned_less [of acc] by simp
  with Nil show ?case by (simp add: payoutSum_def)
next
  case (Cons out outs)
  show ?case
  proof (cases "unat acc + unat (Value out) < 2 ^ 128")
    case True
    then have u: "unat (acc + Value out) = unat acc + unat (Value out)"
      by (rule unat_Currency_add)
    with Cons.prems have "2 ^ 128 \<le> unat (acc + Value out) + payoutSum outs"
      by (simp add: payoutSum_def)
    from Cons.IH [OF this] True show ?thesis
      by (simp add: Add_in_range rbind_Ok)
  next
    case False
    then show ?thesis by (simp add: Add_overflow rbind_Panic)
  qed
qed

lemma sumOutputs_eq_Ok:
  "sumOutputs acc outs = Ok s \<Longrightarrow> unat acc + payoutSum outs < 2 ^ 128 \<and> unat s = unat acc + payoutSum outs"
proof (cases "unat acc + payoutSum outs < 2 ^ 128")
  case True
  assume "sumOutputs acc outs = Ok s"
  with sumOutputs_in_range [OF True] True show ?thesis by auto
next
  case False
  assume "sumOutputs acc outs = Ok s"
  with sumOutputs_overflow [of acc outs] False show ?thesis by simp
qed

lemma sumRevisionOutputs_fits:
  "\<forall>j<length rs. i + j < length cur \<and> Address (rs ! j) = Address (cur ! (i + j)) \<Longrightarrow>
   sumRevisionOutputs msg cur rs i acc = sumOutputs acc rs"
proof (induction rs arbitrary: i acc)
  case Nil
  show ?case by simp
next
  case (Cons r rs)
  from Cons.prems have "i + 0 < length cur \<and> Address ((r # rs) ! 0) = Address (cur ! (i + 0))"
    by blast
  then have i: "i < length cur" and a: "Address r = Address (cur ! i)"
    by simp_all
  have "\<forall>j<length rs. Suc i + j < length cur \<and> Address (rs ! j) = Address (cur ! (Suc i + j))"
  proof (intro allI impI)
    fix j assume "j < length rs"
    then have "Suc j < length (r # rs)" by simp
    with Cons.prems
    have "i + Suc j < length cur \<and> Address ((r # rs) ! Suc j) = Address (cur ! (i + Suc j))"
      by blast
    then show "Suc i + j < length cur \<and> Address (rs ! j) = Address (cur ! (Suc i + j))" by simp
  qed
  then have "\<And>acc'. sumRevisionOutputs msg cur rs (Suc i) acc' = sumOutputs acc' rs"
    by (rule Cons.IH)
  then have "sumRevisionOutputs msg cur rs (Suc i) = (\<lambda>acc'. sumOutputs acc' rs)"
    by (intro ext)
  with i a show ?case
    by (simp add: index_in_range rbind_Ok)
qed

lemma sumRevisionOutputs_eq_Ok:
  "sumRevisionOutputs msg cur rs i acc = Ok s \<Longrightarrow>
   \<forall>j<length rs. i + j < length cur \<and> Address (rs ! j) = Address (cur ! (i + j))"
proof (induction rs arbitrary: i acc)
  case Nil
  then show ?case by simp
next
  case (Cons r rs)
  from Cons.prems obtain acc' where i: "i < length cur" and a: "Address r = Address (cur ! i)"
    and rest: "sumRevisionOutputs msg cur rs (Suc i) acc' = Ok s"
    by (auto simp: rbind_eq_Ok index_eq_Ok split: if_splits)
  from Cons.IH [OF rest]
  have as: "\<forall>j<length rs. Suc i + j < length cur \<and> Address (rs ! j) = Address (cur ! (Suc i + j))" .
  show ?case
  proof (intro allI impI)
    fix j assume "j < length (r # rs)"
    then show "i + j < length cur \<and> Address ((r # rs) ! j) = Address (cur ! (i + j))"
      using i a as by (cases j) auto
  qed
qed

lemma sumRevisionOutputs_length:
  assumes "sumRevisionOutputs msg cur rs 0 acc = Ok s"
  shows "length rs \<le> length cur"
proof (cases rs rule: rev_cases)
  case Nil
  then show ?thesis by simp
next
  case (snoc ys y)
  then have "length ys < length rs" by simp
  with sumRevisionOutputs_eq_Ok [OF assms] have "0 + length ys < length cur" by blast
  with snoc show ?thesis by simp
qed

lemma sumRevisionOutputs_sum:
  assumes "sumRevisionOutputs msg cur rs i acc = Ok s"
  shows "unat acc + payoutSum rs < 2 ^ 128 \<and> unat s = unat acc + payoutSum rs"
proof -
  from sumRevisionOutputs_eq_Ok [OF assms]
  have "sumRevisionOutputs msg cur rs i acc = sumOutputs acc rs"
    by (rule sumRevisionOutputs_fits)
  with assms have "sumOutputs acc rs = Ok s" by simp
  then show ?thesis by (rule sumOutputs_eq_Ok)
qed


lemma Cmp_pos: "0 < Cmp c v \<longleftrightarrow> v < c"
  by (auto simp: Cmp_def word_less_nat_alt word_unat_eq_iff)

lemma Cmp_neg: "Cmp c v < 0 \<longleftrightarrow> c < v"
  by (auto simp: Cmp_def word_less_nat_alt)

lemma Cmp_zero: "Cmp c v = 0 \<longleftrightarrow> c = v"
  by (auto simp: Cmp_def)

lemma ValidRenterPayout_eq_Ok:
  "ValidRenterPayout fc = Ok v \<longleftrightarrow>
   0 < length (ValidProofOutputs fc) \<and> v = Value (ValidProofOutputs fc ! 0)"
  by (auto simp: ValidRenterPayout_def ValidRenterOutput_def rbind_eq_Ok index_eq_Ok)

lemma MissedRenterPayout_eq_Ok:
  "MissedRenterPayout fc = Ok v \<longleftrightarrow>
   0 < length (MissedProofOutputs fc) \<and> v = Value (MissedProofOutputs fc ! 0)"
  by (auto simp: MissedRenterPayout_def MissedRenterOutput_def rbind_eq_Ok index_eq_Ok)

lemma ValidHostPayout_eq_Ok:
  "ValidHostPayout fc = Ok v \<longleftrightarrow>
   1 < length (ValidProofOutputs fc) \<and> v = Value (ValidProofOutputs fc ! 1)"
  by (auto simp: ValidHostPayout_def ValidHostOutput_def rbind_eq_Ok index_eq_Ok)

lemma MissedHostPayout_eq_Ok:
  "MissedHostPayout fc = Ok v \<longleftrightarrow>
   1 < length (MissedProofOutputs fc) \<and> v = Value (MissedProofOutputs fc ! 1)"
  by (auto simp: MissedHostPayout_def MissedHostOutput_def rbind_eq_Ok index_eq_Ok)

lemmas payout_eq_Ok =
  ValidRenterPayout_eq_Ok MissedRenterPayout_eq_Ok ValidHostPayout_eq_Ok MissedHostPayout_eq_Ok

lemma validateStdRevision_Ok:
  assumes ok: "validateStdRevision uh C R = Ok ()"
  shows "specInvariants uh C R"
proof -
  from ok obtain oldPayout validPayout missedPayout where
    s1: "sumOutputs 0 (ValidProofOutputs C) = Ok oldPayout" and
    s2: "sumRevisionOutputs ''valid proof output %v address should not change''
           (ValidProofOutputs C) (ValidProofOutputs R) 0 0 = Ok validPayout" and
    s3: "sumRevisionOutputs ''missed proof output %v address should not change''
           (MissedProofOutputs C) (MissedProofOutputs R) 0 0 = Ok missedPayout" and
    sw: "validPayout = oldPayout" "missedPayout = oldPayout"
        "UnlockHash R = UnlockHash C" "uh (UnlockConditions R) = uh (UnlockConditions C)"
        "\<not> RevisionNumber R \<le> RevisionNumber C"
        "WindowStart R = WindowStart C" "WindowEnd R = WindowEnd C"
        "length (ValidProofOutputs R) = length (ValidProofOutputs C)"
        "length (MissedProofOutputs R) = length (MissedProofOutputs C)" and
    renter:
        "0 < length (ValidProofOutputs R)" "0 < length (MissedProofOutputs R)"
        "\<not> Value (ValidProofOutputs C ! 0) < Value (ValidProofOutputs R ! 0)"
        "\<not> Value (MissedProofOutputs C ! 0) < Value (MissedProofOutputs R ! 0)"
        "Value (ValidProofOutputs R ! 0) = Value (MissedProofOutputs R ! 0)"
    unfolding validateStdRevision_def
    by (auto simp: rbind_eq_Ok payout_eq_Ok Cmp_pos Equals_def split: if_splits)
  from sumOutputs_eq_Ok [OF s1]
  have old: "payoutSum (ValidProofOutputs C) < 2 ^ 128"
    "unat oldPayout = payoutSum (ValidProofOutputs C)" by simp_all
  from sumRevisionOutputs_sum [OF s2] sw(1) old
  have v: "payoutSum (ValidProofOutputs R) = payoutSum (ValidProofOutputs C)" by simp
  from sumRevisionOutputs_sum [OF s3] sw(2) old
  have m: "payoutSum (MissedProofOutputs R) = payoutSum (ValidProofOutputs C)" by simp
  from sumRevisionOutputs_eq_Ok [OF s2]
  have va: "\<forall>i<length (ValidProofOutputs R).
        Address (ValidProofOutputs R ! i) = Address (ValidProofOutputs C ! i)" by simp
  from sumRevisionOutputs_eq_Ok [OF s3]
  have ma: "\<forall>i<length (MissedProofOutputs R).
        Address (MissedProofOutputs R ! i) = Address (MissedProofOutputs C ! i)" by simp
  from sw(5) have "RevisionNumber C < RevisionNumber R" by simp
  with sw renter old v m va ma show ?thesis
    unfolding specInvariants_def by (simp add: not_less)
qed


lemma payout_in_range:
  "0 < length (ValidProofOutputs fc) \<Longrightarrow> ValidRenterPayout fc = Ok (Value (ValidProofOutputs fc ! 0))"
  "0 < length (MissedProofOutputs fc) \<Longrightarrow> MissedRenterPayout fc = Ok (Value (MissedProofOutputs fc ! 0))"
  "1 < length (ValidProofOutputs fc) \<Longrightarrow> ValidHostPayout fc = Ok (Value (ValidProofOutputs fc ! 1))"
  "1 < length (MissedProofOutputs fc) \<Longrightarrow> MissedHostPayout fc = Ok (Value (MissedProofOutputs fc ! 1))"
  by (simp_all add: payout_eq_Ok)

lemma specInvariants_accepted:
  assumes inv: "specInvariants uh C R"
  shows "validateStdRevision uh C R = Ok ()"
proof -
  let ?vmsg = "''valid proof output %v address should not change''"
  let ?mmsg = "''missed proof output %v address should not change''"
  from inv have len: "length (ValidProofOutputs R) = length (ValidProofOutputs C)"
      "length (MissedProofOutputs R) = length (MissedProofOutputs C)"
      "0 < length (ValidProofOutputs R)" "0 < length (MissedProofOutputs R)"
    and va: "\<forall>i<length (ValidProofOutputs R).
        Address (ValidProofOutputs R ! i) = Address (ValidProofOutputs C ! i)"
    and ma: "\<forall>i<length (MissedProofOutputs R).
        Address (MissedProofOutputs R ! i) = Address (MissedProofOutputs C ! i)"
    and sums: "payoutSum (ValidProofOutputs C) < 2 ^ 128"
      "payoutSum (ValidProofOutputs R) = payoutSum (ValidProofOutputs C)"
      "payoutSum (MissedProofOutputs R) = payoutSum (ValidProofOutputs C)"
    and fields: "UnlockHash R = UnlockHash C" "uh (UnlockConditions R) = uh (UnlockConditions C)"
      "WindowStart R = WindowStart C" "WindowEnd R = WindowEnd C"
      "\<not> RevisionNumber R \<le> RevisionNumber C"
    and renter: "\<not> Value (ValidProofOutputs C ! 0) < Value (ValidProofOutputs R ! 0)"
      "\<not> Value (MissedProofOutputs C ! 0) < Value (MissedProofOutputs R ! 0)"
      "Value (ValidProofOutputs R ! 0) = Value (MissedProofOutputs R ! 0)"
    unfolding specInvariants_def by (auto simp: not_less not_le)
  from sums(1) sumOutputs_in_range [of 0 "ValidProofOutputs C"]
  obtain oldPayout where s1: "sumOutputs 0 (ValidProofOutputs C) = Ok oldPayout"
    and o: "unat oldPayout = payoutSum (ValidProofOutputs C)" by auto
  from sums sumOutputs_in_range [of 0 "ValidProofOutputs R"]
  obtain validPayout where v1: "sumOutputs 0 (ValidProofOutputs R) = Ok validPayout"
    and v: "unat validPayout = payoutSum (ValidProofOutputs C)" by auto
  from sums sumOutputs_in_range [of 0 "MissedProofOutputs R"]
  obtain missedPayout where m1: "sumOutputs 0 (MissedProofOutputs R) = Ok missedPayout"
    and m: "unat missedPayout = payoutSum (ValidProofOutputs C)" by auto
  from o v m have eq: "validPayout = oldPayout" "missedPayout = oldPayout"
    by (simp_all add: word_unat_eq_iff)
  from va len have
    "sumRevisionOutputs ?vmsg (ValidProofOutputs C) (ValidProofOutputs R) 0 0
       = sumOutputs 0 (ValidProofOutputs R)"
    by (intro sumRevisionOutputs_fits) simp
  with v1 eq have s2:
    "sumRevisionOutputs ?vmsg (ValidProofOutputs C) (ValidProofOutputs R) 0 0 = Ok oldPayout"
    by simp
  from ma len have
    "sumRevisionOutputs ?mmsg (MissedProofOutputs C) (MissedProofOutputs R) 0 0
       = sumOutputs 0 (MissedProofOutputs R)"
    by (intro sumRevisionOutputs_fits) simp
  with m1 eq have s3:
    "sumRevisionOutputs ?mmsg (MissedProofOutputs C) (MissedProofOutputs R) 0 0 = Ok oldPayout"
    by simp
  from len have acc:
    "ValidRenterPayout R = Ok (Value (ValidProofOutputs R ! 0))"
    "ValidRenterPayout C = Ok (Value (ValidProofOutputs C ! 0))"
    "MissedRenterPayout R = Ok (Value (MissedProofOutputs R ! 0))"
    "MissedRenterPayout C = Ok (Value (MissedProofOutputs C ! 0))"
    by (simp_all add: payout_in_range)
  show ?thesis
    unfolding validateStdRevision_def s1 s2 s3 acc rbind_Ok
    using len fields renter by (simp add: Equals_def Cmp_pos)
qed

lemma index_update_other: "i \<noteq> j \<Longrightarrow> index (xs[i := y]) j = index xs j"
  by (simp add: index_def)

lemma MissedHostPayout_address_update:
  "MissedHostPayout (fc\<lparr>MissedProofOutputs :=
      (MissedProofOutputs fc)[Suc 0 := (MissedProofOutputs fc ! Suc 0)\<lparr>Address := a\<rparr>]\<rparr>)
   = MissedHostPayout fc"
  by (simp add: MissedHostPayout_def MissedHostOutput_def index_def rbind_def)

lemma ValidHostPayout_missed_update:
  "ValidHostPayout (fc\<lparr>MissedProofOutputs := ms\<rparr>) = ValidHostPayout fc"
  by (simp add: ValidHostPayout_def ValidHostOutput_def)

lemma unat_Currency_sub: "unat v \<le> unat c \<Longrightarrow> unat (c - v :: Currency) = unat c - unat v"
  by (simp add: unat_sub word_le_nat_alt)

lemma ValidateProgramRevision_Ok:
  assumes ok: "ValidateProgramRevision uh C R storage collateral = Ok burn"
  shows "validateStdRevision uh C R = Ok ()"
    and "1 < length (ValidProofOutputs C)" and "1 < length (ValidProofOutputs R)"
    and "2 < length (MissedProofOutputs C)" and "2 < length (MissedProofOutputs R)"
    and "unat (Value (MissedProofOutputs R ! 1)) \<le> unat (Value (MissedProofOutputs C ! 1))"
    and "burn = Value (MissedProofOutputs C ! 1) - Value (MissedProofOutputs R ! 1)"
    and "unat storage + unat collateral < 2 ^ 128"
    and "unat burn \<le> unat (storage + collateral)"
    and "unat (Value (MissedProofOutputs C ! 2)) \<le> unat (Value (MissedProofOutputs R ! 2))"
    and "Value (MissedProofOutputs R ! 2) - Value (MissedProofOutputs C ! 2) = burn"
    and "Value (ValidProofOutputs R ! 0) = Value (ValidProofOutputs C ! 0)"
    and "Value (ValidProofOutputs R ! 1) = Value (ValidProofOutputs C ! 1)"
    and "Value (MissedProofOutputs R ! 0) = Value (MissedProofOutputs C ! 0)"
  using ok unfolding ValidateProgramRevision_def
  by (auto simp: rbind_eq_Ok payout_eq_Ok index_eq_Ok SubWithUnderflow_def Add_eq_Ok Cmp_pos
      Equals_def word_less_nat_alt not_less split: if_splits)

lemma Sub_eq_Ok: "Sub c v = Ok s \<longleftrightarrow> unat v \<le> unat c \<and> s = c - v"
  by (auto simp: Sub_def SubWithUnderflow_def)

lemma payoutSum_three:
  assumes "length xs = 3"
  shows "payoutSum xs = unat (Value (xs ! 0)) + unat (Value (xs ! 1)) + unat (Value (xs ! 2))"
proof -
  from assms obtain a b c where "xs = [a, b, c]"
    by (auto simp: numeral_3_eq_3 length_Suc_conv)
  then show ?thesis by (simp add: payoutSum_def)
qed

lemma ValidatePaymentRevision_Ok:
  assumes ok: "ValidatePaymentRevision uh C R payment = Ok ()"
  shows "validateStdRevision uh C R = Ok ()"
    and "1 < length (ValidProofOutputs C)" and "1 < length (ValidProofOutputs R)"
    and "1 < length (MissedProofOutputs C)" and "1 < length (MissedProofOutputs R)"
    and "unat payment \<le> unat (Value (ValidProofOutputs C ! 0))"
    and "Value (ValidProofOutputs R ! 0) = Value (ValidProofOutputs C ! 0) - payment"
    and "unat payment \<le> unat (Value (MissedProofOutputs C ! 0))"
    and "Value (MissedProofOutputs R ! 0) = Value (MissedProofOutputs C ! 0) - payment"
    and "unat (Value (ValidProofOutputs C ! 1)) + unat payment < 2 ^ 128"
    and "Value (ValidProofOutputs R ! 1) = Value (ValidProofOutputs C ! 1) + payment"
    and "unat (Value (MissedProofOutputs C ! 1)) + unat payment < 2 ^ 128"
    and "Value (MissedProofOutputs R ! 1) = Value (MissedProofOutputs C ! 1) + payment"
  using ok unfolding ValidatePaymentRevision_def
  by (auto simp: rbind_eq_Ok payout_eq_Ok index_eq_Ok Sub_eq_Ok Add_eq_Ok Cmp_zero
      split: if_splits)

lemma ValidateRevision_Ok:
  assumes ok: "ValidateRevision uh C R payment collateral = Ok tb"
  shows "validateStdRevision uh C R = Ok ()"
    and "1 < length (ValidProofOutputs R)" and "1 < length (MissedProofOutputs R)"
  using ok unfolding ValidateRevision_def
  by (auto simp: rbind_eq_Ok payout_eq_Ok SubWithUnderflow_def split: if_splits)

lemma clearingOutputs_eq_Ok:
  "clearingOutputs cur fmissed rest i = Ok u \<Longrightarrow>
   \<forall>j<length rest. i + j < length cur \<and> i + j < length fmissed \<and>
     Value (rest ! j) = Value (cur ! (i + j)) \<and> Address (rest ! j) = Address (cur ! (i + j)) \<and>
     Value (fmissed ! (i + j)) = Value (rest ! j) \<and> Address (fmissed ! (i + j)) = Address (rest ! j)"
proof (induction rest arbitrary: i)
  case Nil
  show ?case by simp
next
  case (Cons valid rest)
  from Cons.prems have here: "i < length cur" "i < length fmissed"
      "Value valid = Value (cur ! i)" "Address valid = Address (cur ! i)"
      "Value (fmissed ! i) = Value valid" "Address (fmissed ! i) = Address valid"
    and tail: "clearingOutputs cur fmissed rest (Suc i) = Ok u"
    by (auto simp: rbind_eq_Ok index_eq_Ok Equals_def split: if_splits)
  note ih = Cons.IH [OF tail]
  show ?case
  proof (intro allI impI)
    fix j assume "j < length (valid # rest)"
    then show "i + j < length cur \<and> i + j < length fmissed \<and>
      Value ((valid # rest) ! j) = Value (cur ! (i + j)) \<and>
      Address ((valid # rest) ! j) = Address (cur ! (i + j)) \<and>
      Value (fmissed ! (i + j)) = Value ((valid # rest) ! j) \<and>
      Address (fmissed ! (i + j)) = Address ((valid # rest) ! j)"
      using here ih by (cases j) auto
  qed
qed

lemma ValidateClearingRevision_Ok:
  assumes ok: "ValidateClearingRevision uh C F = Ok ()"
  shows "Filesize F = 0" and "FileMerkleRoot F = 0"
    and "WindowStart F = WindowStart C" and "WindowEnd F = WindowEnd C"
    and "length (ValidProofOutputs F) = length (MissedProofOutputs F)"
    and "RevisionNumber F = MaxRevisionNumber"
    and "UnlockHash F = UnlockHash C"
    and "uh (UnlockConditions F) = uh (UnlockConditions C)"
    and "clearingOutputs (ValidProofOutputs C) (MissedProofOutputs F) (ValidProofOutputs F) 0 = Ok ()"
  using ok unfolding ValidateClearingRevision_def
  by (auto split: if_splits)

lemmas scenario_defs =
  scenarioCurrent_def scenarioPayment_def scenarioProgram_def scenarioRevision_def scenarioFinal_def
  scenarioSettings_def exampleUnlockHash_def exampleHostKey_def exampleRenterKey_def

lemma scenario_payment_accepted:
  "ValidatePaymentRevision exampleUnlockHash scenarioCurrent scenarioPayment 10 = Ok ()"
  by (simp add: ValidatePaymentRevision_def validateStdRevision_def scenario_defs eval_defs)

lemma scenario_program_accepted:
  "ValidateProgramRevision exampleUnlockHash scenarioCurrent scenarioProgram 3 5 = Ok 5"
  by (simp add: ValidateProgramRevision_def validateStdRevision_def scenario_defs eval_defs)

lemma scenario_revision_accepted:
  "ValidateRevision exampleUnlockHash scenarioCurrent scenarioRevision 10 5 = Ok (10, 5)"
  by (simp add: ValidateRevision_def validateStdRevision_def scenario_defs eval_defs)

lemma scenario_clearing_accepted:
  "ValidateClearingRevision exampleUnlockHash scenarioCurrent scenarioFinal = Ok ()"
  by (simp add: ValidateClearingRevision_def scenario_defs eval_defs)

lemma all_below_length: "\<forall>j<n. j < (m::nat) \<Longrightarrow> n \<le> m"
  by (cases n) auto

lemma unat_uint64_add: "unat a + unat b < 2 ^ 64 \<Longrightarrow> unat (a + b :: uint64) = unat a + unat b"
  by (simp add: unat_add_lem [THEN iffD1])

lemma ValidateContractRenewal_Ok:
  assumes ok: "ValidateContractRenewal existing renewal hostKey renterKey baseHostRevenue
     baseRiskedCollateral currentHeight settings = Ok (storageRevenue, riskedCollateral, lockedCollateral)"
  shows "storageRevenue = baseHostRevenue"
    and "unat baseHostRevenue + unat baseRiskedCollateral < 2 ^ 128"
    and "unat (Value (MissedProofOutputs renewal ! 1)) \<le> unat (Value (ValidProofOutputs renewal ! 1))"
    and "unat (Value (ValidProofOutputs renewal ! 1) - Value (MissedProofOutputs renewal ! 1))
           \<le> unat (baseHostRevenue + baseRiskedCollateral)"
    and "Value (MissedProofOutputs renewal ! 2)
           = Value (ValidProofOutputs renewal ! 1) - Value (MissedProofOutputs renewal ! 1)"
    and "riskedCollateral =
          (if unat (Value (ValidProofOutputs renewal ! 1) - Value (MissedProofOutputs renewal ! 1))
                < unat baseHostRevenue then 0
           else Value (ValidProofOutputs renewal ! 1) - Value (MissedProofOutputs renewal ! 1)
                - baseHostRevenue)"
    and "unat baseHostRevenue \<le> unat (Value (ValidProofOutputs renewal ! 1))"
    and "lockedCollateral = Value (ValidProofOutputs renewal ! 1) - baseHostRevenue"
    and "unat lockedCollateral \<le> unat (MaxCollateral settings)"
  using ok unfolding ValidateContractRenewal_def
  by (auto simp: rbind_eq_Ok payout_eq_Ok index_eq_Ok SubWithUnderflow_def Add_eq_Ok Cmp_pos
      Equals_def ZeroCurrency_def word_less_nat_alt not_less Let_def split: if_splits)

lemma reviseOutputs_same: "reviseOutputs old (map Value old) = old"
  by (rule nth_equalityI) (simp_all add: reviseOutputs_def)

lemma uint64_succ_greater:
  assumes "n \<noteq> MaxRevisionNumber"
  shows "n < n + 1"
proof -
  from assms have "n \<noteq> - 1" by (simp add: MaxRevisionNumber_def)
  then have "\<not> n + 1 \<le> n" by (simp add: inc_less_eq_self_iff_eq)
  then show ?thesis by simp
qed

lemma scenario_std_accepted:
  "validateStdRevision exampleUnlockHash scenarioCurrent scenarioPayment = Ok ()"
  by (simp add: validateStdRevision_def scenario_defs eval_defs)

section \<open>Properties\<close>

subsection \<open>Out-of-range reads of the current revision\<close>

text \<open>
  Claim C4 says that \<^verbatim>\<open>validateStdRevision\<close> and \<^verbatim>\<open>ValidateClearingRevision\<close>
  never index out of bounds and answer a revision with more outputs than the current
  one by a typed error. The code does not: both loops read the current revision's
  slice at the indices of the proposed revision before any comparison of the lengths,
  so on \<open>longerRevision\<close> (three valid outputs against two) and on \<open>longerFinal\<close>
  (likewise) the run ends in Go's index-out-of-range panic. The later case
  \<^verbatim>\<open>len(revision.ValidProofOutputs) != len(current.ValidProofOutputs)\<close>, which holds the
  typed error for this very input, is never reached.
\<close>

theorem longer_revision_panics:
  "validateStdRevision exampleUnlockHash scenarioCurrent longerRevision = Panic IndexOutOfRange \<and>
   ValidateClearingRevision exampleUnlockHash scenarioCurrent longerFinal = Panic IndexOutOfRange"
  by (simp add: validateStdRevision_def ValidateClearingRevision_def scenarioCurrent_def
      longerRevision_def longerFinal_def exampleUnlockHash_def eval_defs)

subsection \<open>The renewal validator and the missed host address\<close>

text \<open>
  Claim C10: there are inputs that \<^verbatim>\<open>ValidateContractRenewal\<close> accepts although the
  address of the missed host output (index 1) differs from the host's address in the
  settings; the validator never looks at that address. The first conjunct gives such
  an input (\<open>strayRenewal\<close>); the second says that replacing the address of the
  missed host output by any address \<open>a\<close> never changes the validator's result.
\<close>

theorem renewal_ignores_missed_host_address:
  "(\<exists>existing renewal hostKey renterKey baseHostRevenue baseRiskedCollateral currentHeight settings r.
      ValidateContractRenewal existing renewal hostKey renterKey baseHostRevenue
        baseRiskedCollateral currentHeight settings = Ok r \<and>
      Address (MissedProofOutputs renewal ! 1) \<noteq> HostSettings.Address settings) \<and>
   ValidateContractRenewal existing
     (renewal\<lparr>MissedProofOutputs :=
        (MissedProofOutputs renewal)[1 := (MissedProofOutputs renewal ! 1)\<lparr>Address := a\<rparr>]\<rparr>)
     hostKey renterKey baseHostRevenue baseRiskedCollateral currentHeight settings
   = ValidateContractRenewal existing renewal hostKey renterKey baseHostRevenue
       baseRiskedCollateral currentHeight settings"
proof
  have "ValidateContractRenewal scenarioCurrent strayRenewal exampleHostKey exampleRenterKey
          3 5 0 scenarioSettings = Ok (3, 2, 47)"
    by (simp add: ValidateContractRenewal_def scenarioCurrent_def strayRenewal_def
        scenarioSettings_def eval_defs)
  moreover have "Address (MissedProofOutputs strayRenewal ! 1) \<noteq> HostSettings.Address scenarioSettings"
    by (simp add: strayRenewal_def scenarioSettings_def)
  ultimately show "\<exists>existing renewal hostKey renterKey baseHostRevenue baseRiskedCollateral
      currentHeight settings r.
      ValidateContractRenewal existing renewal hostKey renterKey baseHostRevenue
        baseRiskedCollateral currentHeight settings = Ok r \<and>
      Address (MissedProofOutputs renewal ! 1) \<noteq> HostSettings.Address settings"
    by blast
next
  show "ValidateContractRenewal existing
     (renewal\<lparr>MissedProofOutputs :=
        (MissedProofOutputs renewal)[1 := (MissedProofOutputs renewal ! 1)\<lparr>Address := a\<rparr>]\<rparr>)
     hostKey renterKey baseHostRevenue baseRiskedCollateral currentHeight settings
   = ValidateContractRenewal existing renewal hostKey renterKey baseHostRevenue
       baseRiskedCollateral currentHeight settings"
    unfolding ValidateContractRenewal_def
    by (simp add: MissedHostPayout_address_update ValidHostPayout_missed_update index_update_other
        cong: if_cong)
qed

subsection \<open>What an accepted revision pair satisfies\<close>

text \<open>
  Claim C1 says that each of the four validators accepts only pairs \<open>(C, R)\<close> with
  exactly two valid and three missed outputs, conserved payout sums and a strictly
  larger revision number. As stated this fails: no validator of revisions compares a
  length with 2 or 3, and \<^verbatim>\<open>ValidateClearingRevision\<close> does not call
  \<^verbatim>\<open>validateStdRevision\<close>. \<^verbatim>\<open>ValidatePaymentRevision\<close> accepts a pair with three valid
  and two missed outputs; \<^verbatim>\<open>ValidateClearingRevision\<close> accepts a final revision with
  one valid and one missed output whose sum is 100 against the current 150, on a
  current revision that already has the maximal revision number.
\<close>

theorem fixed_arity_counterexample:
  "ValidatePaymentRevision exampleUnlockHash wideCurrent wideRevision 10 = Ok () \<and>
   length (ValidProofOutputs wideRevision) = 3 \<and>
   length (MissedProofOutputs wideRevision) = 2 \<and>
   ValidateClearingRevision exampleUnlockHash lockedCurrent shortFinal = Ok () \<and>
   length (ValidProofOutputs shortFinal) = 1 \<and>
   length (MissedProofOutputs shortFinal) = 1 \<and>
   payoutSum (ValidProofOutputs shortFinal) = 100 \<and>
   payoutSum (MissedProofOutputs shortFinal) = 100 \<and>
   payoutSum (ValidProofOutputs lockedCurrent) = 150 \<and>
   RevisionNumber shortFinal = RevisionNumber lockedCurrent"
  by (simp add: ValidatePaymentRevision_def validateStdRevision_def ValidateClearingRevision_def
      wideCurrent_def wideRevision_def lockedCurrent_def shortFinal_def payoutSum_def
      scenario_defs eval_defs)

text \<open>
  Claim C1 as amended: a pair accepted by \<^verbatim>\<open>ValidatePaymentRevision\<close>,
  \<^verbatim>\<open>ValidateProgramRevision\<close> or \<^verbatim>\<open>ValidateRevision\<close> satisfies \<open>specInvariants\<close>
  (equal lengths, unchanged addresses, both sums of \<open>R\<close> equal to the valid sum of
  \<open>C\<close>, unchanged unlock hash, unlock conditions and window, a strictly larger revision
  number, renter payouts not increased and equal in \<open>R\<close>) with at least two valid and
  two missed outputs (three missed outputs for a program revision). A pair accepted by
  \<^verbatim>\<open>ValidateClearingRevision\<close> has the valid outputs of \<open>R\<close> equal to the first
  outputs of \<open>C\<close>, the missed outputs of \<open>R\<close> equal to its valid outputs, unchanged
  unlock hash, unlock conditions and window, and the maximal revision number, which
  is at least that of \<open>C\<close>.
\<close>

theorem accepted_revision_invariants:
  "(ValidatePaymentRevision uh C R payment = Ok () \<longrightarrow>
      specInvariants uh C R \<and>
      2 \<le> length (ValidProofOutputs R) \<and> 2 \<le> length (MissedProofOutputs R)) \<and>
   (ValidateProgramRevision uh C R storage collateral = Ok burn \<longrightarrow>
      specInvariants uh C R \<and>
      2 \<le> length (ValidProofOutputs R) \<and> 3 \<le> length (MissedProofOutputs R)) \<and>
   (ValidateRevision uh C R payment collateral = Ok tb \<longrightarrow>
      specInvariants uh C R \<and>
      2 \<le> length (ValidProofOutputs R) \<and> 2 \<le> length (MissedProofOutputs R)) \<and>
   (ValidateClearingRevision uh C R = Ok () \<longrightarrow>
      length (ValidProofOutputs R) \<le> length (ValidProofOutputs C) \<and>
      (\<forall>i<length (ValidProofOutputs R). ValidProofOutputs R ! i = ValidProofOutputs C ! i) \<and>
      MissedProofOutputs R = ValidProofOutputs R \<and>
      UnlockHash R = UnlockHash C \<and>
      uh (UnlockConditions R) = uh (UnlockConditions C) \<and>
      WindowStart R = WindowStart C \<and> WindowEnd R = WindowEnd C \<and>
      RevisionNumber R = MaxRevisionNumber \<and> RevisionNumber C \<le> RevisionNumber R)"
proof (intro conjI impI)
  assume ok: "ValidatePaymentRevision uh C R payment = Ok ()"
  note f = ValidatePaymentRevision_Ok [OF ok]
  from f(1) show "specInvariants uh C R" by (rule validateStdRevision_Ok)
  from f(3) show "2 \<le> length (ValidProofOutputs R)" by simp
  from f(5) show "2 \<le> length (MissedProofOutputs R)" by simp
next
  assume ok: "ValidateProgramRevision uh C R storage collateral = Ok burn"
  note f = ValidateProgramRevision_Ok [OF ok]
  from f(1) show "specInvariants uh C R" by (rule validateStdRevision_Ok)
  from f(3) show "2 \<le> length (ValidProofOutputs R)" by simp
  from f(5) show "3 \<le> length (MissedProofOutputs R)" by simp
next
  assume ok: "ValidateRevision uh C R payment collateral = Ok tb"
  note f = ValidateRevision_Ok [OF ok]
  from f(1) show "specInvariants uh C R" by (rule validateStdRevision_Ok)
  from f(2) show "2 \<le> length (ValidProofOutputs R)" by simp
  from f(3) show "2 \<le> length (MissedProofOutputs R)" by simp
next
  assume ok: "ValidateClearingRevision uh C R = Ok ()"
  note f = ValidateClearingRevision_Ok [OF ok]
  note outs = clearingOutputs_eq_Ok [OF f(9)]
  from outs have "\<forall>j<length (ValidProofOutputs R). j < length (ValidProofOutputs C)"
    by simp
  then show "length (ValidProofOutputs R) \<le> length (ValidProofOutputs C)"
    by (rule all_below_length)
  from outs show "\<forall>i<length (ValidProofOutputs R). ValidProofOutputs R ! i = ValidProofOutputs C ! i"
    by simp
  from outs f(5) show "MissedProofOutputs R = ValidProofOutputs R"
    by (intro nth_equalityI) simp_all
  from f show "UnlockHash R = UnlockHash C" "uh (UnlockConditions R) = uh (UnlockConditions C)"
    "WindowStart R = WindowStart C" "WindowEnd R = WindowEnd C"
    "RevisionNumber R = MaxRevisionNumber" by simp_all
  from f(6) show "RevisionNumber C \<le> RevisionNumber R"
    by (simp add: MaxRevisionNumber_def)
qed

theorem accepted_revision_invariants_witness:
  "ValidatePaymentRevision exampleUnlockHash scenarioCurrent scenarioPayment 10 = Ok () \<and>
   specInvariants exampleUnlockHash scenarioCurrent scenarioPayment \<and>
   ValidateProgramRevision exampleUnlockHash scenarioCurrent scenarioProgram 3 5 = Ok 5 \<and>
   specInvariants exampleUnlockHash scenarioCurrent scenarioProgram \<and>
   ValidateRevision exampleUnlockHash scenarioCurrent scenarioRevision 10 5 = Ok (10, 5) \<and>
   specInvariants exampleUnlockHash scenarioCurrent scenarioRevision \<and>
   ValidateClearingRevision exampleUnlockHash scenarioCurrent scenarioFinal = Ok () \<and>
   MissedProofOutputs scenarioFinal = ValidProofOutputs scenarioFinal"
  using scenario_payment_accepted scenario_program_accepted scenario_revision_accepted
    scenario_clearing_accepted
    accepted_revision_invariants [of exampleUnlockHash scenarioCurrent scenarioPayment 10 3 5 5 "(10, 5)"]
    accepted_revision_invariants [of exampleUnlockHash scenarioCurrent scenarioProgram 10 3 5 5 "(10, 5)"]
    accepted_revision_invariants [of exampleUnlockHash scenarioCurrent scenarioRevision 10 3 5 5 "(10, 5)"]
    accepted_revision_invariants [of exampleUnlockHash scenarioCurrent scenarioFinal 10 3 5 5 "(10, 5)"]
  by blast

subsection \<open>Payment revisions\<close>

text \<open>
  Claim C3 says that \<^verbatim>\<open>ValidatePaymentRevision\<close> accepts only exact payment
  transfers, in which no output value other than the four renter and host payouts
  changes. The four payouts are checked, the other values are not: they are only
  bound through the sums. The void value changes from 7 to 0 in a pair that is
  accepted because the current revision's missed values do not sum to its valid
  total, and from 5 to 0 in a pair with four missed outputs.
\<close>

theorem payment_only_counterexample:
  "ValidatePaymentRevision exampleUnlockHash burntCurrent scenarioPayment 10 = Ok () \<and>
   Value (MissedProofOutputs burntCurrent ! 2) = 7 \<and>
   Value (MissedProofOutputs scenarioPayment ! 2) = 0 \<and>
   ValidatePaymentRevision exampleUnlockHash fourCurrent fourRevision 10 = Ok () \<and>
   Value (MissedProofOutputs fourCurrent ! 2) = 5 \<and>
   Value (MissedProofOutputs fourRevision ! 2) = 0"
  by (simp add: ValidatePaymentRevision_def validateStdRevision_def
      burntCurrent_def fourCurrent_def fourRevision_def scenario_defs eval_defs)

text \<open>
  Claim C3 as amended: an accepted payment revision lowers the renter's valid and
  missed payouts by exactly \<open>payment\<close> (which does not exceed either) and raises the
  host's valid and missed payouts by exactly \<open>payment\<close>; and when the current revision
  has two valid outputs and three missed outputs whose values sum to its valid total,
  the void value is unchanged too, so that no other output value changed.
\<close>

theorem payment_revision_transfer:
  assumes ok: "ValidatePaymentRevision uh C R payment = Ok ()"
  shows "unat payment \<le> unat (Value (ValidProofOutputs C ! 0)) \<and>
    unat (Value (ValidProofOutputs R ! 0)) = unat (Value (ValidProofOutputs C ! 0)) - unat payment \<and>
    unat payment \<le> unat (Value (MissedProofOutputs C ! 0)) \<and>
    unat (Value (MissedProofOutputs R ! 0)) = unat (Value (MissedProofOutputs C ! 0)) - unat payment \<and>
    unat (Value (ValidProofOutputs R ! 1)) = unat (Value (ValidProofOutputs C ! 1)) + unat payment \<and>
    unat (Value (MissedProofOutputs R ! 1)) = unat (Value (MissedProofOutputs C ! 1)) + unat payment \<and>
    (length (ValidProofOutputs C) = 2 \<and> length (MissedProofOutputs C) = 3 \<and>
       payoutSum (MissedProofOutputs C) = payoutSum (ValidProofOutputs C) \<longrightarrow>
     Value (MissedProofOutputs R ! 2) = Value (MissedProofOutputs C ! 2))"
proof -
  note f = ValidatePaymentRevision_Ok [OF ok]
  from f(6,7) have vr: "unat (Value (ValidProofOutputs R ! 0)) =
      unat (Value (ValidProofOutputs C ! 0)) - unat payment"
    by (simp add: unat_Currency_sub)
  from f(8,9) have mr: "unat (Value (MissedProofOutputs R ! 0)) =
      unat (Value (MissedProofOutputs C ! 0)) - unat payment"
    by (simp add: unat_Currency_sub)
  from f(10,11) have vh: "unat (Value (ValidProofOutputs R ! 1)) =
      unat (Value (ValidProofOutputs C ! 1)) + unat payment"
    by (simp add: unat_Currency_add)
  from f(12,13) have mh: "unat (Value (MissedProofOutputs R ! 1)) =
      unat (Value (MissedProofOutputs C ! 1)) + unat payment"
    by (simp add: unat_Currency_add)
  have void: "Value (MissedProofOutputs R ! 2) = Value (MissedProofOutputs C ! 2)"
    if shape: "length (MissedProofOutputs C) = 3"
      and total: "payoutSum (MissedProofOutputs C) = payoutSum (ValidProofOutputs C)"
  proof -
    from validateStdRevision_Ok [OF f(1)]
    have len: "length (MissedProofOutputs R) = length (MissedProofOutputs C)"
      and sum: "payoutSum (MissedProofOutputs R) = payoutSum (ValidProofOutputs C)"
      by (simp_all add: specInvariants_def)
    from len shape have "length (MissedProofOutputs R) = 3" by simp
    from payoutSum_three [OF this] payoutSum_three [OF shape] sum total
    have "unat (Value (MissedProofOutputs R ! 0)) + unat (Value (MissedProofOutputs R ! 1))
          + unat (Value (MissedProofOutputs R ! 2))
        = unat (Value (MissedProofOutputs C ! 0)) + unat (Value (MissedProofOutputs C ! 1))
          + unat (Value (MissedProofOutputs C ! 2))"
      by simp
    with mr mh f(8)
    have "unat (Value (MissedProofOutputs R ! 2)) = unat (Value (MissedProofOutputs C ! 2))"
      by simp
    then show ?thesis by (simp add: word_unat_eq_iff)
  qed
  from f(6,8) vr mr vh mh void show ?thesis by blast
qed

theorem payment_revision_transfer_witness:
  "ValidatePaymentRevision exampleUnlockHash scenarioCurrent scenarioPayment 10 = Ok () \<and>
   length (ValidProofOutputs scenarioCurrent) = 2 \<and>
   length (MissedProofOutputs scenarioCurrent) = 3 \<and>
   payoutSum (MissedProofOutputs scenarioCurrent) = payoutSum (ValidProofOutputs scenarioCurrent) \<and>
   unat (Value (ValidProofOutputs scenarioPayment ! 1)) =
     unat (Value (ValidProofOutputs scenarioCurrent ! 1)) + unat (10 :: Currency) \<and>
   Value (MissedProofOutputs scenarioPayment ! 2) = Value (MissedProofOutputs scenarioCurrent ! 2)"
proof -
  have shape: "length (ValidProofOutputs scenarioCurrent) = 2 \<and>
      length (MissedProofOutputs scenarioCurrent) = 3 \<and>
      payoutSum (MissedProofOutputs scenarioCurrent) = payoutSum (ValidProofOutputs scenarioCurrent)"
    by (simp add: scenarioCurrent_def payoutSum_def)
  with payment_revision_transfer [OF scenario_payment_accepted] scenario_payment_accepted
  show ?thesis by blast
qed

subsection \<open>Program revisions\<close>

text \<open>
  Claim C6: for an accepted program revision the renter's valid payout, the host's
  valid payout and the renter's missed payout are unchanged; the host's missed payout
  does not grow and the void value does not shrink, the decrease of the one equals the
  increase of the other, this amount is at most \<open>storage + collateral\<close>, and it is the
  burn returned. All differences are exact: the subtractions do not truncate.
\<close>

theorem program_revision_frame:
  assumes ok: "ValidateProgramRevision uh C R storage collateral = Ok burn"
  shows "2 \<le> length (ValidProofOutputs R) \<and> 3 \<le> length (MissedProofOutputs R) \<and>
    length (ValidProofOutputs C) = length (ValidProofOutputs R) \<and>
    length (MissedProofOutputs C) = length (MissedProofOutputs R) \<and>
    Value (ValidProofOutputs R ! 0) = Value (ValidProofOutputs C ! 0) \<and>
    Value (ValidProofOutputs R ! 1) = Value (ValidProofOutputs C ! 1) \<and>
    Value (MissedProofOutputs R ! 0) = Value (MissedProofOutputs C ! 0) \<and>
    unat (Value (MissedProofOutputs R ! 1)) \<le> unat (Value (MissedProofOutputs C ! 1)) \<and>
    unat (Value (MissedProofOutputs C ! 2)) \<le> unat (Value (MissedProofOutputs R ! 2)) \<and>
    unat (Value (MissedProofOutputs C ! 1)) - unat (Value (MissedProofOutputs R ! 1)) =
      unat (Value (MissedProofOutputs R ! 2)) - unat (Value (MissedProofOutputs C ! 2)) \<and>
    unat (Value (MissedProofOutputs C ! 1)) - unat (Value (MissedProofOutputs R ! 1))
      \<le> unat storage + unat collateral \<and>
    unat burn = unat (Value (MissedProofOutputs C ! 1)) - unat (Value (MissedProofOutputs R ! 1))"
proof -
  note f = ValidateProgramRevision_Ok [OF ok]
  from validateStdRevision_Ok [OF f(1)]
  have len: "length (ValidProofOutputs C) = length (ValidProofOutputs R)"
    "length (MissedProofOutputs C) = length (MissedProofOutputs R)"
    by (simp_all add: specInvariants_def)
  from f(6,7) have b: "unat burn =
      unat (Value (MissedProofOutputs C ! 1)) - unat (Value (MissedProofOutputs R ! 1))"
    by (simp add: unat_Currency_sub)
  from f(10,11) have v: "unat burn =
      unat (Value (MissedProofOutputs R ! 2)) - unat (Value (MissedProofOutputs C ! 2))"
    using unat_Currency_sub [of "Value (MissedProofOutputs C ! 2)" "Value (MissedProofOutputs R ! 2)"]
    by simp
  from f(8) have "unat (storage + collateral) = unat storage + unat collateral"
    by (rule unat_Currency_add)
  with f(9) have bound: "unat burn \<le> unat storage + unat collateral" by simp
  from f(3,5) have "2 \<le> length (ValidProofOutputs R)" "3 \<le> length (MissedProofOutputs R)"
    by simp_all
  with len f(6,10,12,13,14) b v bound show ?thesis by simp
qed

theorem program_revision_frame_witness:
  "ValidateProgramRevision exampleUnlockHash scenarioCurrent scenarioProgram 3 5 = Ok 5 \<and>
   unat (5 :: Currency) = unat (Value (MissedProofOutputs scenarioCurrent ! 1))
     - unat (Value (MissedProofOutputs scenarioProgram ! 1)) \<and>
   unat (Value (MissedProofOutputs scenarioCurrent ! 1))
     - unat (Value (MissedProofOutputs scenarioProgram ! 1)) \<le> unat (3 :: Currency) + unat (5 :: Currency)"
  using program_revision_frame [OF scenario_program_accepted] scenario_program_accepted
  by blast

subsection \<open>Clearing revisions\<close>

text \<open>
  Claim C7: a pair \<open>(C, F)\<close> accepted by \<^verbatim>\<open>ValidateClearingRevision\<close> has the maximal
  revision number, file size 0 and the zero Merkle root in \<open>F\<close>, the windows of \<open>C\<close>,
  and at every index \<open>i\<close> of the valid outputs of \<open>F\<close>: the value and address of the
  valid output of \<open>C\<close>, and a missed output of \<open>F\<close> with the same value and address.
\<close>

theorem clearing_revision_accepted:
  assumes ok: "ValidateClearingRevision uh C F = Ok ()"
  shows "RevisionNumber F = MaxRevisionNumber \<and> Filesize F = 0 \<and> FileMerkleRoot F = 0 \<and>
    WindowStart F = WindowStart C \<and> WindowEnd F = WindowEnd C \<and>
    (\<forall>i<length (ValidProofOutputs F).
       i < length (ValidProofOutputs C) \<and> i < length (MissedProofOutputs F) \<and>
       Value (ValidProofOutputs F ! i) = Value (ValidProofOutputs C ! i) \<and>
       Address (ValidProofOutputs F ! i) = Address (ValidProofOutputs C ! i) \<and>
       Value (MissedProofOutputs F ! i) = Value (ValidProofOutputs F ! i) \<and>
       Address (MissedProofOutputs F ! i) = Address (ValidProofOutputs F ! i))"
proof -
  note f = ValidateClearingRevision_Ok [OF ok]
  from clearingOutputs_eq_Ok [OF f(9)] f(1,2,3,4,6) show ?thesis by simp
qed

theorem clearing_revision_accepted_witness:
  "ValidateClearingRevision exampleUnlockHash scenarioCurrent scenarioFinal = Ok () \<and>
   RevisionNumber scenarioFinal = MaxRevisionNumber \<and> Filesize scenarioFinal = 0 \<and>
   FileMerkleRoot scenarioFinal = 0"
  using clearing_revision_accepted [OF scenario_clearing_accepted] scenario_clearing_accepted
  by blast

subsection \<open>Renewals\<close>

text \<open>
  Claim C5: an accepted renewal returns \<open>(baseHostRevenue, riskedCollateral,
  lockedCollateral)\<close> where, with the host burn being the host's valid payout minus its
  missed payout (the missed payout is not larger): the burn is at most
  \<open>baseHostRevenue + baseRiskedCollateral\<close>, the void value equals the burn, the risked
  collateral is the burn minus \<open>baseHostRevenue\<close> when the burn is at least that and
  zero otherwise, and the locked collateral is the host's valid payout minus
  \<open>baseHostRevenue\<close> (which is not larger) and at most \<open>MaxCollateral\<close>.
\<close>

theorem renewal_collateral:
  assumes ok: "ValidateContractRenewal existing renewal hostKey renterKey baseHostRevenue
     baseRiskedCollateral currentHeight settings = Ok (storageRevenue, riskedCollateral, lockedCollateral)"
  shows "storageRevenue = baseHostRevenue \<and>
    unat (Value (MissedProofOutputs renewal ! 1)) \<le> unat (Value (ValidProofOutputs renewal ! 1)) \<and>
    unat (Value (ValidProofOutputs renewal ! 1)) - unat (Value (MissedProofOutputs renewal ! 1))
      \<le> unat baseHostRevenue + unat baseRiskedCollateral \<and>
    unat (Value (MissedProofOutputs renewal ! 2)) =
      unat (Value (ValidProofOutputs renewal ! 1)) - unat (Value (MissedProofOutputs renewal ! 1)) \<and>
    unat riskedCollateral =
      (if unat baseHostRevenue \<le>
            unat (Value (ValidProofOutputs renewal ! 1)) - unat (Value (MissedProofOutputs renewal ! 1))
       then unat (Value (ValidProofOutputs renewal ! 1)) - unat (Value (MissedProofOutputs renewal ! 1))
            - unat baseHostRevenue
       else 0) \<and>
    unat baseHostRevenue \<le> unat (Value (ValidProofOutputs renewal ! 1)) \<and>
    unat lockedCollateral = unat (Value (ValidProofOutputs renewal ! 1)) - unat baseHostRevenue \<and>
    unat lockedCollateral \<le> unat (MaxCollateral settings)"
proof -
  let ?vhp = "Value (ValidProofOutputs renewal ! 1)"
  let ?mhp = "Value (MissedProofOutputs renewal ! 1)"
  note f = ValidateContractRenewal_Ok [OF ok]
  from f(3) have burn: "unat (?vhp - ?mhp) = unat ?vhp - unat ?mhp"
    by (rule unat_Currency_sub)
  from f(2) have "unat (baseHostRevenue + baseRiskedCollateral)
      = unat baseHostRevenue + unat baseRiskedCollateral"
    by (rule unat_Currency_add)
  with f(4) burn have bound: "unat ?vhp - unat ?mhp \<le> unat baseHostRevenue + unat baseRiskedCollateral"
    by simp
  from f(5) burn have void: "unat (Value (MissedProofOutputs renewal ! 2)) = unat ?vhp - unat ?mhp"
    by simp
  have risked: "unat riskedCollateral =
      (if unat baseHostRevenue \<le> unat ?vhp - unat ?mhp
       then unat ?vhp - unat ?mhp - unat baseHostRevenue else 0)"
  proof (cases "unat (?vhp - ?mhp) < unat baseHostRevenue")
    case True
    with f(6) burn show ?thesis by simp
  next
    case False
    then have "unat baseHostRevenue \<le> unat (?vhp - ?mhp)" by simp
    then have "unat (?vhp - ?mhp - baseHostRevenue) = unat (?vhp - ?mhp) - unat baseHostRevenue"
      by (rule unat_Currency_sub)
    with False f(6) burn show ?thesis by simp
  qed
  from f(7,8) have locked: "unat lockedCollateral = unat ?vhp - unat baseHostRevenue"
    by (simp add: unat_Currency_sub)
  from f(1,3,7,9) bound void risked locked show ?thesis by simp
qed

theorem renewal_collateral_witness:
  "ValidateContractRenewal scenarioCurrent strayRenewal exampleHostKey exampleRenterKey 3 5 0
     scenarioSettings = Ok (3, 2, 47) \<and>
   unat (47 :: Currency) = unat (Value (ValidProofOutputs strayRenewal ! 1)) - unat (3 :: Currency) \<and>
   unat (47 :: Currency) \<le> unat (MaxCollateral scenarioSettings)"
proof -
  have ok: "ValidateContractRenewal scenarioCurrent strayRenewal exampleHostKey exampleRenterKey
      3 5 0 scenarioSettings = Ok (3, 2, 47)"
    by (simp add: ValidateContractRenewal_def scenarioCurrent_def strayRenewal_def
        scenarioSettings_def eval_defs)
  from renewal_collateral [OF ok] ok show ?thesis by blast
qed

subsection \<open>Formation\<close>

text \<open>
  Claim C8 says that every contract that satisfies the formation checks of the
  specification is accepted with result \<open>ValidHostPayout - ContractPrice\<close>. The code
  adds heights in \<^verbatim>\<open>uint64\<close>, which wraps: with \<open>MaxDuration = 2 ^ 64 - 1\<close> and height
  1 the sum \<^verbatim>\<open>currentHeight+settings.MaxDuration\<close> is 0, and the contract of the
  scenario, whose window starts at 100, is rejected as too long although
  \<open>100 \<le> 1 + (2 ^ 64 - 1)\<close>.
\<close>

theorem formation_duration_counterexample:
  "specFormationChecks exampleUnlockHash scenarioFormation exampleHostKey exampleRenterKey 1
     unboundedSettings \<and>
   ValidateContractFormation exampleUnlockHash scenarioFormation exampleHostKey exampleRenterKey 1
     unboundedSettings = Err (Error ''contract duration is too long'' [])"
  by (simp add: specFormationChecks_def ValidateContractFormation_def scenarioFormation_def
      unboundedSettings_def scenarioSettings_def eval_defs)

text \<open>
  Claim C8 as amended: every contract that satisfies the formation checks, at a height
  \<open>h\<close> with \<open>h + MaxDuration < 2 ^ 64\<close>, is accepted, and the result is the host's
  valid payout minus the contract price, a subtraction that does not underflow. In
  the scenario of the specification the result is 40.
\<close>

theorem formation_accepted:
  assumes checks: "specFormationChecks uh fc hostKey renterKey h S"
    and fits: "unat h + unat (MaxDuration S) < 2 ^ 64"
  shows "ValidateContractFormation uh fc hostKey renterKey h S
      = Ok (Value (ValidProofOutputs fc ! 1) - ContractPrice S) \<and>
    unat (ContractPrice S) \<le> unat (Value (ValidProofOutputs fc ! 1)) \<and>
    unat (Value (ValidProofOutputs fc ! 1) - ContractPrice S)
      = unat (Value (ValidProofOutputs fc ! 1)) - unat (ContractPrice S)"
proof -
  from checks have fields: "Filesize fc = 0" "RevisionNumber fc = 0" "FileMerkleRoot fc = 0"
    and soon: "unat h + unat (WindowSize S) \<le> unat (WindowStart fc)"
    and long: "unat (WindowStart fc) \<le> unat h + unat (MaxDuration S)"
    and wide: "unat (WindowStart fc) + unat (WindowSize S) \<le> unat (WindowEnd fc)"
    and len: "length (ValidProofOutputs fc) = 2" "length (MissedProofOutputs fc) = 3"
    and addr: "Address (ValidProofOutputs fc ! 1) = HostSettings.Address S"
      "Address (MissedProofOutputs fc ! 1) = HostSettings.Address S"
      "Address (MissedProofOutputs fc ! 2) = VoidAddress"
    and vals: "Value (MissedProofOutputs fc ! 2) = 0"
      "unat (ContractPrice S) \<le> unat (Value (ValidProofOutputs fc ! 1))"
      "Value (ValidProofOutputs fc ! 1) = Value (MissedProofOutputs fc ! 1)"
      "unat (Value (ValidProofOutputs fc ! 1)) \<le> unat (MaxCollateral S)"
    and hash: "UnlockHash fc = uh (contractUnlockConditions hostKey renterKey)"
    unfolding specFormationChecks_def by auto
  have "unat (WindowStart fc) < 2 ^ 64" "unat (WindowEnd fc) < 2 ^ 64"
    using unsigned_less [of "WindowStart fc"] unsigned_less [of "WindowEnd fc"] by simp_all
  with soon wide have small: "unat h + unat (WindowSize S) < 2 ^ 64"
    "unat (WindowStart fc) + unat (WindowSize S) < 2 ^ 64" by simp_all
  from small(1) soon have c1: "\<not> WindowStart fc < h + WindowSize S"
    by (simp add: word_less_nat_alt unat_uint64_add)
  from fits long have c2: "\<not> WindowStart fc > h + MaxDuration S"
    by (simp add: word_less_nat_alt unat_uint64_add)
  from small(2) wide have c3: "\<not> WindowEnd fc < WindowStart fc + WindowSize S"
    by (simp add: word_less_nat_alt unat_uint64_add)
  from len have acc: "ValidHostOutput fc = Ok (ValidProofOutputs fc ! 1)"
    "MissedHostOutput fc = Ok (MissedProofOutputs fc ! 1)"
    "index (MissedProofOutputs fc) 2 = Ok (MissedProofOutputs fc ! 2)"
    "ValidHostPayout fc = Ok (Value (ValidProofOutputs fc ! 1))"
    "MissedHostPayout fc = Ok (Value (MissedProofOutputs fc ! 1))"
    by (simp_all add: ValidHostOutput_def MissedHostOutput_def index_in_range payout_in_range)
  from vals(2) have sub: "Sub (Value (ValidProofOutputs fc ! 1)) (ContractPrice S)
      = Ok (Value (ValidProofOutputs fc ! 1) - ContractPrice S)"
    by (simp add: Sub_eq_Ok)
  have "ValidateContractFormation uh fc hostKey renterKey h S
      = Ok (Value (ValidProofOutputs fc ! 1) - ContractPrice S)"
    unfolding ValidateContractFormation_def acc rbind_Ok
    using fields c1 c2 c3 len addr vals hash sub
    by (simp add: Cmp_neg Cmp_pos Equals_def ZeroCurrency_def word_less_nat_alt)
  with vals(2) show ?thesis by (simp add: unat_Currency_sub)
qed

theorem formation_accepted_witness:
  "specFormationChecks exampleUnlockHash scenarioFormation exampleHostKey exampleRenterKey 0
     scenarioSettings \<and>
   unat (0 :: uint64) + unat (MaxDuration scenarioSettings) < 2 ^ 64 \<and>
   ValidateContractFormation exampleUnlockHash scenarioFormation exampleHostKey exampleRenterKey 0
     scenarioSettings = Ok 40"
proof -
  have checks: "specFormationChecks exampleUnlockHash scenarioFormation exampleHostKey exampleRenterKey 0
     scenarioSettings"
    by (simp add: specFormationChecks_def scenarioFormation_def scenarioSettings_def VoidAddress_def)
  have fits: "unat (0 :: uint64) + unat (MaxDuration scenarioSettings) < 2 ^ 64"
    by (simp add: scenarioSettings_def)
  have "Value (ValidProofOutputs scenarioFormation ! 1) - ContractPrice scenarioSettings = 40"
    by (simp add: scenarioFormation_def scenarioSettings_def)
  with formation_accepted [OF checks fits] checks fits show ?thesis by simp
qed

subsection \<open>Revising with the same values\<close>

text \<open>
  Claim C9 says that for every revision \<open>r\<close>, \<^verbatim>\<open>Revise\<close> with the next revision number
  and the values \<open>r\<close> already has succeeds, and that its result passes
  \<^verbatim>\<open>validateStdRevision\<close> against \<open>r\<close>. It fails for a locked revision, whose next
  revision number wraps to 0, so that \<^verbatim>\<open>Revise\<close> returns its error; and the result of
  \<^verbatim>\<open>Revise\<close> is rejected by \<^verbatim>\<open>validateStdRevision\<close> when the missed values of \<open>r\<close> do
  not sum to its valid total, or when the renter's valid and missed payouts differ.
\<close>

theorem revise_same_values_counterexample:
  "Revise lockedCurrent (RevisionNumber lockedCurrent + 1)
     (map Value (ValidProofOutputs lockedCurrent)) (map Value (MissedProofOutputs lockedCurrent))
     = Err (Error ''revision number must be greater than %v'' [unat (- 1 :: uint64)]) \<and>
   Revise burntCurrent (RevisionNumber burntCurrent + 1)
     (map Value (ValidProofOutputs burntCurrent)) (map Value (MissedProofOutputs burntCurrent))
     = Ok (burntCurrent\<lparr>RevisionNumber := 2\<rparr>) \<and>
   validateStdRevision exampleUnlockHash burntCurrent (burntCurrent\<lparr>RevisionNumber := 2\<rparr>)
     = Err (Error ''missed proof output sum must not change'' []) \<and>
   Revise unequalCurrent (RevisionNumber unequalCurrent + 1)
     (map Value (ValidProofOutputs unequalCurrent)) (map Value (MissedProofOutputs unequalCurrent))
     = Ok (unequalCurrent\<lparr>RevisionNumber := 2\<rparr>) \<and>
   validateStdRevision exampleUnlockHash unequalCurrent (unequalCurrent\<lparr>RevisionNumber := 2\<rparr>)
     = Err (Error ''renter payouts must be equal'' [])"
  by (simp add: Revise_def reviseOutputs_def validateStdRevision_def lockedCurrent_def
      burntCurrent_def unequalCurrent_def scenarioCurrent_def exampleUnlockHash_def eval_defs
      upt_rec)

text \<open>
  Claim C9 as amended: for every revision \<open>r\<close> that is not locked, has valid and missed
  outputs, whose missed values sum to the total of its valid values (below \<open>2 ^ 128\<close>),
  and whose renter payouts are equal, \<^verbatim>\<open>Revise\<close> with the next revision number and the
  values of \<open>r\<close> returns \<open>r\<close> with only the revision number changed, and that revision
  passes \<^verbatim>\<open>validateStdRevision\<close> against \<open>r\<close>.
\<close>

theorem revise_same_values:
  assumes unlocked: "RevisionNumber r \<noteq> MaxRevisionNumber"
    and nonempty: "0 < length (ValidProofOutputs r)" "0 < length (MissedProofOutputs r)"
    and total: "payoutSum (ValidProofOutputs r) < 2 ^ 128"
      "payoutSum (MissedProofOutputs r) = payoutSum (ValidProofOutputs r)"
    and renter: "Value (ValidProofOutputs r ! 0) = Value (MissedProofOutputs r ! 0)"
  shows "Revise r (RevisionNumber r + 1)
      (map Value (ValidProofOutputs r)) (map Value (MissedProofOutputs r))
      = Ok (r\<lparr>RevisionNumber := RevisionNumber r + 1\<rparr>) \<and>
    validateStdRevision uh r (r\<lparr>RevisionNumber := RevisionNumber r + 1\<rparr>) = Ok ()"
proof
  from unlocked have up: "RevisionNumber r < RevisionNumber r + 1"
    by (rule uint64_succ_greater)
  then have "\<not> RevisionNumber r + 1 \<le> RevisionNumber r" by simp
  then show "Revise r (RevisionNumber r + 1)
      (map Value (ValidProofOutputs r)) (map Value (MissedProofOutputs r))
      = Ok (r\<lparr>RevisionNumber := RevisionNumber r + 1\<rparr>)"
    by (simp add: Revise_def reviseOutputs_same)
  from up nonempty total renter
  have "specInvariants uh r (r\<lparr>RevisionNumber := RevisionNumber r + 1\<rparr>)"
    by (simp add: specInvariants_def)
  then show "validateStdRevision uh r (r\<lparr>RevisionNumber := RevisionNumber r + 1\<rparr>) = Ok ()"
    by (rule specInvariants_accepted)
qed

theorem revise_same_values_witness:
  "RevisionNumber scenarioCurrent \<noteq> MaxRevisionNumber \<and>
   0 < length (ValidProofOutputs scenarioCurrent) \<and>
   0 < length (MissedProofOutputs scenarioCurrent) \<and>
   payoutSum (ValidProofOutputs scenarioCurrent) < 2 ^ 128 \<and>
   payoutSum (MissedProofOutputs scenarioCurrent) = payoutSum (ValidProofOutputs scenarioCurrent) \<and>
   Value (ValidProofOutputs scenarioCurrent ! 0) = Value (MissedProofOutputs scenarioCurrent ! 0) \<and>
   Revise scenarioCurrent (RevisionNumber scenarioCurrent + 1)
      (map Value (ValidProofOutputs scenarioCurrent)) (map Value (MissedProofOutputs scenarioCurrent))
      = Ok (scenarioCurrent\<lparr>RevisionNumber := RevisionNumber scenarioCurrent + 1\<rparr>) \<and>
   validateStdRevision exampleUnlockHash scenarioCurrent
      (scenarioCurrent\<lparr>RevisionNumber := RevisionNumber scenarioCurrent + 1\<rparr>) = Ok ()"
proof -
  have h: "RevisionNumber scenarioCurrent \<noteq> MaxRevisionNumber"
    "0 < length (ValidProofOutputs scenarioCurrent)"
    "0 < length (MissedProofOutputs scenarioCurrent)"
    "payoutSum (ValidProofOutputs scenarioCurrent) < 2 ^ 128"
    "payoutSum (MissedProofOutputs scenarioCurrent) = payoutSum (ValidProofOutputs scenarioCurrent)"
    "Value (ValidProofOutputs scenarioCurrent ! 0) = Value (MissedProofOutputs scenarioCurrent ! 0)"
    by (simp_all add: scenarioCurrent_def payoutSum_def MaxRevisionNumber_def)
  from revise_same_values [OF h, of exampleUnlockHash] h show ?thesis by blast
qed

subsection \<open>Sums past the currency range\<close>

text \<open>
  Claim C2 says that \<^verbatim>\<open>validateStdRevision\<close> returns a typed error when output values
  sum past the range of the currency. It has no such error: the sums use
  \<^verbatim>\<open>Currency.Add\<close>, which panics on overflow. Here the current revision's valid values
  sum to \<open>2 ^ 128\<close> and the run ends in that panic.
\<close>

theorem sum_overflow_counterexample:
  "2 ^ 128 \<le> payoutSum (ValidProofOutputs overflowCurrent) \<and>
   validateStdRevision exampleUnlockHash overflowCurrent scenarioPayment = Panic Overflow"
  by (simp add: validateStdRevision_def overflowCurrent_def scenarioPayment_def scenarioCurrent_def
      payoutSum_def exampleUnlockHash_def eval_defs)

text \<open>
  Claim C2 as amended: the three sums are checked and never wrap, and an overflow is
  a panic. When the current revision's valid values sum past \<open>2 ^ 128 - 1\<close> the
  function panics with overflow; so it does when the revision's valid values do (the
  current valid sum being in range) or the revision's missed values do (the two valid
  sums being in range), unless the loop has ended before on an index past the current
  revision's outputs or on a changed address. When the function accepts, the three
  sums are the exact sums: the current valid sum is below \<open>2 ^ 128\<close> and both sums of the
  revision equal it.
\<close>

theorem sum_overflow_panics:
  "(2 ^ 128 \<le> payoutSum (ValidProofOutputs C) \<longrightarrow>
      validateStdRevision uh C R = Panic Overflow) \<and>
   (payoutSum (ValidProofOutputs C) < 2 ^ 128 \<and>
    (\<forall>j<length (ValidProofOutputs R). j < length (ValidProofOutputs C) \<and>
        Address (ValidProofOutputs R ! j) = Address (ValidProofOutputs C ! j)) \<and>
    2 ^ 128 \<le> payoutSum (ValidProofOutputs R) \<longrightarrow>
      validateStdRevision uh C R = Panic Overflow) \<and>
   (payoutSum (ValidProofOutputs C) < 2 ^ 128 \<and>
    (\<forall>j<length (ValidProofOutputs R). j < length (ValidProofOutputs C) \<and>
        Address (ValidProofOutputs R ! j) = Address (ValidProofOutputs C ! j)) \<and>
    payoutSum (ValidProofOutputs R) < 2 ^ 128 \<and>
    (\<forall>j<length (MissedProofOutputs R). j < length (MissedProofOutputs C) \<and>
        Address (MissedProofOutputs R ! j) = Address (MissedProofOutputs C ! j)) \<and>
    2 ^ 128 \<le> payoutSum (MissedProofOutputs R) \<longrightarrow>
      validateStdRevision uh C R = Panic Overflow) \<and>
   (validateStdRevision uh C R = Ok () \<longrightarrow>
      payoutSum (ValidProofOutputs C) < 2 ^ 128 \<and>
      payoutSum (ValidProofOutputs R) = payoutSum (ValidProofOutputs C) \<and>
      payoutSum (MissedProofOutputs R) = payoutSum (ValidProofOutputs C))"
proof (intro conjI impI)
  assume "2 ^ 128 \<le> payoutSum (ValidProofOutputs C)"
  then have "sumOutputs 0 (ValidProofOutputs C) = Panic Overflow"
    by (intro sumOutputs_overflow) simp
  then show "validateStdRevision uh C R = Panic Overflow"
    by (simp add: validateStdRevision_def rbind_Panic)
next
  assume a: "payoutSum (ValidProofOutputs C) < 2 ^ 128 \<and>
    (\<forall>j<length (ValidProofOutputs R). j < length (ValidProofOutputs C) \<and>
        Address (ValidProofOutputs R ! j) = Address (ValidProofOutputs C ! j)) \<and>
    2 ^ 128 \<le> payoutSum (ValidProofOutputs R)"
  then obtain old where old: "sumOutputs 0 (ValidProofOutputs C) = Ok old"
    using sumOutputs_in_range [of 0 "ValidProofOutputs C"] by auto
  from a have "sumRevisionOutputs ''valid proof output %v address should not change''
      (ValidProofOutputs C) (ValidProofOutputs R) 0 0 = sumOutputs 0 (ValidProofOutputs R)"
    by (intro sumRevisionOutputs_fits) simp
  moreover from a have "sumOutputs 0 (ValidProofOutputs R) = Panic Overflow"
    by (intro sumOutputs_overflow) simp
  ultimately show "validateStdRevision uh C R = Panic Overflow"
    using old by (simp add: validateStdRevision_def rbind_Panic rbind_Ok)
next
  assume a: "payoutSum (ValidProofOutputs C) < 2 ^ 128 \<and>
    (\<forall>j<length (ValidProofOutputs R). j < length (ValidProofOutputs C) \<and>
        Address (ValidProofOutputs R ! j) = Address (ValidProofOutputs C ! j)) \<and>
    payoutSum (ValidProofOutputs R) < 2 ^ 128 \<and>
    (\<forall>j<length (MissedProofOutputs R). j < length (MissedProofOutputs C) \<and>
        Address (MissedProofOutputs R ! j) = Address (MissedProofOutputs C ! j)) \<and>
    2 ^ 128 \<le> payoutSum (MissedProofOutputs R)"
  then obtain old where old: "sumOutputs 0 (ValidProofOutputs C) = Ok old"
    using sumOutputs_in_range [of 0 "ValidProofOutputs C"] by auto
  from a obtain new where new: "sumOutputs 0 (ValidProofOutputs R) = Ok new"
    using sumOutputs_in_range [of 0 "ValidProofOutputs R"] by auto
  from a have "sumRevisionOutputs ''valid proof output %v address should not change''
      (ValidProofOutputs C) (ValidProofOutputs R) 0 0 = sumOutputs 0 (ValidProofOutputs R)"
    by (intro sumRevisionOutputs_fits) simp
  moreover from a have "sumRevisionOutputs ''missed proof output %v address should not change''
      (MissedProofOutputs C) (MissedProofOutputs R) 0 0 = sumOutputs 0 (MissedProofOutputs R)"
    by (intro sumRevisionOutputs_fits) simp
  moreover from a have "sumOutputs 0 (MissedProofOutputs R) = Panic Overflow"
    by (intro sumOutputs_overflow) simp
  ultimately show "validateStdRevision uh C R = Panic Overflow"
    using old new by (simp add: validateStdRevision_def rbind_Panic rbind_Ok)
next
  assume "validateStdRevision uh C R = Ok ()"
  then have inv: "specInvariants uh C R" by (rule validateStdRevision_Ok)
  then show "payoutSum (ValidProofOutputs C) < 2 ^ 128"
    "payoutSum (ValidProofOutputs R) = payoutSum (ValidProofOutputs C)"
    "payoutSum (MissedProofOutputs R) = payoutSum (ValidProofOutputs C)"
    by (simp_all add: specInvariants_def)
qed


theorem sum_overflow_panics_witness:
  "2 ^ 128 \<le> payoutSum (ValidProofOutputs overflowCurrent) \<and>
   validateStdRevision exampleUnlockHash overflowCurrent scenarioPayment = Panic Overflow \<and>
   2 ^ 128 \<le> payoutSum (ValidProofOutputs overflowValid) \<and>
   validateStdRevision exampleUnlockHash scenarioCurrent overflowValid = Panic Overflow \<and>
   2 ^ 128 \<le> payoutSum (MissedProofOutputs overflowMissed) \<and>
   validateStdRevision exampleUnlockHash scenarioCurrent overflowMissed = Panic Overflow \<and>
   validateStdRevision exampleUnlockHash scenarioCurrent scenarioPayment = Ok () \<and>
   payoutSum (ValidProofOutputs scenarioPayment) = payoutSum (ValidProofOutputs scenarioCurrent) \<and>
   payoutSum (MissedProofOutputs scenarioPayment) = payoutSum (ValidProofOutputs scenarioCurrent)"
proof -
  have a: "2 ^ 128 \<le> payoutSum (ValidProofOutputs overflowCurrent)"
    by (simp add: overflowCurrent_def scenarioCurrent_def payoutSum_def)
  have b: "payoutSum (ValidProofOutputs scenarioCurrent) < 2 ^ 128 \<and>
    (\<forall>j<length (ValidProofOutputs overflowValid). j < length (ValidProofOutputs scenarioCurrent) \<and>
        Address (ValidProofOutputs overflowValid ! j) = Address (ValidProofOutputs scenarioCurrent ! j)) \<and>
    2 ^ 128 \<le> payoutSum (ValidProofOutputs overflowValid)"
    by (simp add: overflowValid_def scenarioPayment_def scenarioCurrent_def payoutSum_def
        less_Suc_eq)
  have c: "payoutSum (ValidProofOutputs scenarioCurrent) < 2 ^ 128 \<and>
    (\<forall>j<length (ValidProofOutputs overflowMissed). j < length (ValidProofOutputs scenarioCurrent) \<and>
        Address (ValidProofOutputs overflowMissed ! j) = Address (ValidProofOutputs scenarioCurrent ! j)) \<and>
    payoutSum (ValidProofOutputs overflowMissed) < 2 ^ 128 \<and>
    (\<forall>j<length (MissedProofOutputs overflowMissed). j < length (MissedProofOutputs scenarioCurrent) \<and>
        Address (MissedProofOutputs overflowMissed ! j) = Address (MissedProofOutputs scenarioCurrent ! j)) \<and>
    2 ^ 128 \<le> payoutSum (MissedProofOutputs overflowMissed)"
    by (simp add: overflowMissed_def scenarioPayment_def scenarioCurrent_def payoutSum_def
        less_Suc_eq)
  note r1 = sum_overflow_panics [of overflowCurrent exampleUnlockHash scenarioPayment,
      THEN conjunct1, THEN mp, OF a]
  note r2 = sum_overflow_panics [of scenarioCurrent exampleUnlockHash overflowValid,
      THEN conjunct2, THEN conjunct1, THEN mp, OF b]
  note r3 = sum_overflow_panics [of scenarioCurrent exampleUnlockHash overflowMissed,
      THEN conjunct2, THEN conjunct2, THEN conjunct1, THEN mp, OF c]
  note r4 = sum_overflow_panics [of scenarioCurrent exampleUnlockHash scenarioPayment,
      THEN conjunct2, THEN conjunct2, THEN conjunct2, THEN mp, OF scenario_std_accepted]
  from b have b': "2 ^ 128 \<le> payoutSum (ValidProofOutputs overflowValid)" by (rule conjunct2 [THEN conjunct2])
  from c have c': "2 ^ 128 \<le> payoutSum (MissedProofOutputs overflowMissed)" by blast
  from r4 have r4': "payoutSum (ValidProofOutputs scenarioPayment) = payoutSum (ValidProofOutputs scenarioCurrent)"
    "payoutSum (MissedProofOutputs scenarioPayment) = payoutSum (ValidProofOutputs scenarioCurrent)"
    by simp_all
  show ?thesis
    by (intro conjI) (fact a r1 b' r2 c' r3 scenario_std_accepted r4')+
qed

end
